theory Spec2Isabelle
  imports Complex_Main "HOL-Library.Char_ord" "HOL-Library.List_Lexorder" "HOL-Library.Multiset"
begin

section \<open>Python values reaching the HTTP facade\<close>

text \<open>
  The facade of \<^verbatim>\<open>server.py\<close> reads a JSON body with
  \<^verbatim>\<open>request.get_json(silent=True) or {}\<close>, so its helpers receive arbitrary
  Python values: \<^verbatim>\<open>None\<close>, booleans, unbounded integers, floats, strings,
  lists and dicts.  A Python \<^verbatim>\<open>str\<close> is modelled as a \<open>string\<close> whose
  characters are the code points below 256; a float is the real number it denotes, or one
  of the three special values (\<^verbatim>\<open>json.loads\<close> yields \<^verbatim>\<open>inf\<close> for
  \<^verbatim>\<open>1e999\<close>).
\<close>

datatype pyfloat = Finite real | PosInf | NegInf | NaN

datatype pyval =
    PNone
  | PBool bool
  | PInt int
  | PFloat pyfloat
  | PStr string
  | PList "pyval list"
  | PDict "(string \<times> pyval) list"

text \<open>The exceptions the modelled code can raise; only \<open>ValueError\<close> carries the
  message the source gives it.\<close>

datatype exn =
    TypeError
  | ValueError string
  | AttributeError
  | OverflowError
  | OperationalError
  | IntegrityError

text \<open>Python truth value testing (\<^verbatim>\<open>if val:\<close>, \<^verbatim>\<open>val or ''\<close>).\<close>

fun truthy :: "pyval \<Rightarrow> bool" where
  "truthy PNone = False"
| "truthy (PBool b) = b"
| "truthy (PInt i) = (i \<noteq> 0)"
| "truthy (PFloat (Finite x)) = (x \<noteq> 0)"
| "truthy (PFloat f) = True"
| "truthy (PStr s) = (s \<noteq> [])"
| "truthy (PList xs) = (xs \<noteq> [])"
| "truthy (PDict kvs) = (kvs \<noteq> [])"

text \<open>\<^verbatim>\<open>payload.get(key)\<close>: the value bound to the key, \<^verbatim>\<open>None\<close> when the
  key is missing.\<close>

definition dict_get :: "(string \<times> pyval) list \<Rightarrow> string \<Rightarrow> pyval" where
  "dict_get kvs k = (case map_of kvs k of None \<Rightarrow> PNone | Some v \<Rightarrow> v)"

text \<open>\<^verbatim>\<open>request.get_json(silent=True) or {}\<close> followed by the first
  \<^verbatim>\<open>payload.get\<close>: a falsy body is replaced by the empty dict, a truthy body
  that is no dict has no \<^verbatim>\<open>get\<close>.\<close>

definition get_payload :: "pyval \<Rightarrow> exn + (string \<times> pyval) list" where
  "get_payload body =
     (if \<not> truthy body then Inr []
      else case body of PDict kvs \<Rightarrow> Inr kvs | _ \<Rightarrow> Inl AttributeError)"

subsection \<open>\<^verbatim>\<open>str.strip\<close>\<close>

text \<open>\<^verbatim>\<open>str.isspace\<close> on the code points below 256.\<close>

definition is_space :: "char \<Rightarrow> bool" where
  "is_space c =
     (let n = (of_char c :: nat)
      in (9 \<le> n \<and> n \<le> 13) \<or> (28 \<le> n \<and> n \<le> 32) \<or> n = 133 \<or> n = 160)"

definition strip :: "string \<Rightarrow> string" where
  "strip s = rev (dropWhile is_space (rev (dropWhile is_space s)))"

subsection \<open>\<^verbatim>\<open>int()\<close> and \<^verbatim>\<open>float()\<close>\<close>

text \<open>
  What Python's \<^verbatim>\<open>int\<close> and \<^verbatim>\<open>float\<close> make of a string (their literal
  grammar, and the rounding of a decimal to a double) is not part of \<^verbatim>\<open>server.py\<close>;
  it is a parameter of the model.  \<open>None\<close> stands for \<^verbatim>\<open>ValueError\<close>.
\<close>

record conv =
  int_str :: "string \<Rightarrow> int option"
  float_str :: "string \<Rightarrow> pyfloat option"

text \<open>\<^verbatim>\<open>int(x)\<close> of a float truncates towards zero.\<close>

definition py_trunc :: "real \<Rightarrow> int" where
  "py_trunc x = (if 0 \<le> x then \<lfloor>x\<rfloor> else \<lceil>x\<rceil>)"

fun py_int :: "conv \<Rightarrow> pyval \<Rightarrow> exn + int" where
  "py_int B PNone = Inl TypeError"
| "py_int B (PBool b) = Inr (if b then 1 else 0)"
| "py_int B (PInt i) = Inr i"
| "py_int B (PFloat (Finite x)) = Inr (py_trunc x)"
| "py_int B (PFloat NaN) = Inl (ValueError ''cannot convert float NaN to integer'')"
| "py_int B (PFloat f) = Inl OverflowError"
| "py_int B (PStr s) =
     (case int_str B s of None \<Rightarrow> Inl (ValueError ''invalid literal for int()'') | Some i \<Rightarrow> Inr i)"
| "py_int B (PList xs) = Inl TypeError"
| "py_int B (PDict kvs) = Inl TypeError"

text \<open>
  \<^verbatim>\<open>float(i)\<close> of an integer rounds to the nearest double, ties to even, and raises
  \<^verbatim>\<open>OverflowError\<close> when the result would not be finite.
\<close>

fun bit_length :: "nat \<Rightarrow> nat" where
  "bit_length n = (if n = 0 then 0 else Suc (bit_length (n div 2)))"

declare bit_length.simps [simp del]

definition round_to_double :: "int \<Rightarrow> int" where
  "round_to_double i =
     (let a = nat \<bar>i\<bar>; n = bit_length a
      in if n \<le> 53 then i
         else let s = n - 53; q = a div 2 ^ s; r = a mod 2 ^ s; h = 2 ^ (s - 1);
                  q' = (if h < r \<or> (r = h \<and> odd q) then q + 1 else q)
              in sgn i * int (q' * 2 ^ s))"

definition float_of_int :: "int \<Rightarrow> exn + pyfloat" where
  "float_of_int i =
     (let v = round_to_double i
      in if 2 ^ 1024 \<le> \<bar>v\<bar> then Inl OverflowError else Inr (Finite (of_int v)))"

fun py_float :: "conv \<Rightarrow> pyval \<Rightarrow> exn + pyfloat" where
  "py_float B PNone = Inl TypeError"
| "py_float B (PBool b) = Inr (Finite (if b then 1 else 0))"
| "py_float B (PInt i) = float_of_int i"
| "py_float B (PFloat f) = Inr f"
| "py_float B (PStr s) =
     (case float_str B s of None \<Rightarrow> Inl (ValueError ''could not convert string to float'')
      | Some f \<Rightarrow> Inr f)"
| "py_float B (PList xs) = Inl TypeError"
| "py_float B (PDict kvs) = Inl TypeError"

text \<open>Comparison of a float with an integer bound; every comparison with NaN is false.\<close>

fun float_less_int :: "pyfloat \<Rightarrow> int \<Rightarrow> bool" where
  "float_less_int (Finite x) m = (x < of_int m)"
| "float_less_int NegInf m = True"
| "float_less_int PosInf m = False"
| "float_less_int NaN m = False"

fun int_less_float :: "int \<Rightarrow> pyfloat \<Rightarrow> bool" where
  "int_less_float m (Finite x) = (of_int m < x)"
| "int_less_float m PosInf = True"
| "int_less_float m NegInf = False"
| "int_less_float m NaN = False"

section \<open>The facade's parsing helpers\<close>

text \<open>
  \<^verbatim>\<open>parse_int(val, min_val, max_val)\<close>: \<^verbatim>\<open>None\<close> for a missing value, for a
  \<^verbatim>\<open>TypeError\<close> or \<^verbatim>\<open>ValueError\<close> of \<^verbatim>\<open>int\<close>, and for a value out of
  bounds.  Any other exception (\<^verbatim>\<open>OverflowError\<close>) is not caught.
\<close>

definition parse_int :: "conv \<Rightarrow> pyval \<Rightarrow> int option \<Rightarrow> int option \<Rightarrow> exn + int option" where
  "parse_int B val min_val max_val =
     (if val = PNone then Inr None
      else case py_int B val of
             Inl TypeError \<Rightarrow> Inr None
           | Inl (ValueError m) \<Rightarrow> Inr None
           | Inl e \<Rightarrow> Inl e
           | Inr i \<Rightarrow>
               (case min_val of
                  Some lo \<Rightarrow> if i < lo then Inr None
                             else (case max_val of
                                     Some hi \<Rightarrow> if hi < i then Inr None else Inr (Some i)
                                   | None \<Rightarrow> Inr (Some i))
                | None \<Rightarrow> (case max_val of
                             Some hi \<Rightarrow> if hi < i then Inr None else Inr (Some i)
                           | None \<Rightarrow> Inr (Some i))))"

definition parse_float :: "conv \<Rightarrow> pyval \<Rightarrow> int option \<Rightarrow> int option \<Rightarrow> exn + pyfloat option" where
  "parse_float B val min_val max_val =
     (if val = PNone then Inr None
      else case py_float B val of
             Inl TypeError \<Rightarrow> Inr None
           | Inl (ValueError m) \<Rightarrow> Inr None
           | Inl e \<Rightarrow> Inl e
           | Inr f \<Rightarrow>
               (case min_val of
                  Some lo \<Rightarrow> if float_less_int f lo then Inr None
                             else (case max_val of
                                     Some hi \<Rightarrow> if int_less_float hi f then Inr None else Inr (Some f)
                                   | None \<Rightarrow> Inr (Some f))
                | None \<Rightarrow> (case max_val of
                             Some hi \<Rightarrow> if int_less_float hi f then Inr None else Inr (Some f)
                           | None \<Rightarrow> Inr (Some f))))"

text \<open>
  \<^verbatim>\<open>sanitize_text(val, max_len=255)\<close>: \<^verbatim>\<open>(val or "").strip()\<close>, then
  \<^verbatim>\<open>None\<close> for the empty result and the first \<open>max_len\<close> characters otherwise.  A
  truthy value that is no string has no \<^verbatim>\<open>strip\<close>.
\<close>

definition sanitize_text :: "pyval \<Rightarrow> nat \<Rightarrow> exn + string option" where
  "sanitize_text val max_len =
     (if truthy val
      then (case val of
              PStr v \<Rightarrow> (let s = strip v in if s = [] then Inr None else Inr (Some (take max_len s)))
            | _ \<Rightarrow> Inl AttributeError)
      else Inr None)"

subsection \<open>\<^verbatim>\<open>datetime.strptime(val, "%Y-%m-%d")\<close>\<close>

text \<open>
  CPython's \<^verbatim>\<open>_strptime\<close> turns the format into the regular expression
  \<^verbatim>\<open>(?P<Y>\d\d\d\d)-(?P<m>1[0-2]|0[1-9]|[1-9])-(?P<d>3[0-1]|[1-2]\d|0[1-9]|[1-9]| [1-9])\<close>,
  requires it to consume the whole string, and then builds the date, which fails for the
  year 0 and for a day the month does not have.  Each failure is a \<^verbatim>\<open>ValueError\<close>.
\<close>

definition is_digit :: "char \<Rightarrow> bool" where
  "is_digit c = (48 \<le> (of_char c :: nat) \<and> (of_char c :: nat) \<le> 57)"

definition digit_val :: "char \<Rightarrow> nat" where
  "digit_val c = of_char c - 48"

fun match_year :: "string \<Rightarrow> (nat \<times> string) option" where
  "match_year (a # b # c # e # rest) =
     (if is_digit a \<and> is_digit b \<and> is_digit c \<and> is_digit e
      then Some (1000 * digit_val a + 100 * digit_val b + 10 * digit_val c + digit_val e, rest)
      else None)"
| "match_year s = None"

fun match_month :: "string \<Rightarrow> (nat \<times> string) option" where
  "match_month (a # b # rest) =
     (if a = CHR ''1'' \<and> is_digit b \<and> digit_val b \<le> 2 then Some (10 + digit_val b, rest)
      else if a = CHR ''0'' \<and> is_digit b \<and> 1 \<le> digit_val b then Some (digit_val b, rest)
      else if is_digit a \<and> 1 \<le> digit_val a then Some (digit_val a, b # rest)
      else None)"
| "match_month [a] = (if is_digit a \<and> 1 \<le> digit_val a then Some (digit_val a, []) else None)"
| "match_month [] = None"

text \<open>The day stands last, so its alternative has to be the whole remainder.\<close>

fun match_day :: "string \<Rightarrow> nat option" where
  "match_day [a] = (if is_digit a \<and> 1 \<le> digit_val a then Some (digit_val a) else None)"
| "match_day [a, b] =
     (if a = CHR ''3'' \<and> is_digit b \<and> digit_val b \<le> 1 then Some (30 + digit_val b)
      else if is_digit a \<and> 1 \<le> digit_val a \<and> digit_val a \<le> 2 \<and> is_digit b
        then Some (10 * digit_val a + digit_val b)
      else if a = CHR ''0'' \<and> is_digit b \<and> 1 \<le> digit_val b then Some (digit_val b)
      else if a = CHR '' '' \<and> is_digit b \<and> 1 \<le> digit_val b then Some (digit_val b)
      else None)"
| "match_day s = None"

definition is_leap :: "nat \<Rightarrow> bool" where
  "is_leap y = (y mod 4 = 0 \<and> (y mod 100 \<noteq> 0 \<or> y mod 400 = 0))"

definition days_in_month :: "nat \<Rightarrow> nat \<Rightarrow> nat" where
  "days_in_month y m =
     (if m = 2 then (if is_leap y then 29 else 28)
      else if m = 4 \<or> m = 6 \<or> m = 9 \<or> m = 11 then 30 else 31)"

text \<open>\<open>strptime_ymd s\<close> holds when \<^verbatim>\<open>strptime(s, "%Y-%m-%d")\<close> returns.\<close>

definition strptime_ymd :: "string \<Rightarrow> bool" where
  "strptime_ymd s =
     (case match_year s of
        None \<Rightarrow> False
      | Some (y, r1) \<Rightarrow>
          (case r1 of
             [] \<Rightarrow> False
           | h1 # r2 \<Rightarrow>
               if h1 \<noteq> CHR ''-'' then False
               else (case match_month r2 of
                       None \<Rightarrow> False
                     | Some (m, r3) \<Rightarrow>
                         (case r3 of
                            [] \<Rightarrow> False
                          | h2 # r4 \<Rightarrow>
                              if h2 \<noteq> CHR ''-'' then False
                              else (case match_day r4 of
                                      None \<Rightarrow> False
                                    | Some d \<Rightarrow> 1 \<le> y \<and> d \<le> days_in_month y m)))))"

text \<open>
  \<^verbatim>\<open>parse_date_yyyy_mm_dd(val)\<close>: a falsy value is absent; otherwise the value itself
  when \<^verbatim>\<open>strptime\<close> accepts it, and \<^verbatim>\<open>None\<close> on its \<^verbatim>\<open>ValueError\<close>.
  \<^verbatim>\<open>strptime\<close> raises \<^verbatim>\<open>TypeError\<close> for a value that is no string, which
  the function does not catch.
\<close>

definition parse_date_yyyy_mm_dd :: "pyval \<Rightarrow> exn + string option" where
  "parse_date_yyyy_mm_dd val =
     (if \<not> truthy val then Inr None
      else case val of
             PStr s \<Rightarrow> if strptime_ymd s then Inr (Some s) else Inr None
           | _ \<Rightarrow> Inl TypeError)"

subsection \<open>Date texts, for stating what the date parser accepts\<close>


text \<open>The ways of writing a date: the year with four digits, the month and the day with
  two digits or, below ten, with one; a one-digit day may follow a space.\<close>

definition digit_char :: "nat \<Rightarrow> char" where
  "digit_char n = char_of (48 + n)"

definition pad2 :: "nat \<Rightarrow> string" where
  "pad2 n = [digit_char (n div 10), digit_char (n mod 10)]"

definition pad4 :: "nat \<Rightarrow> string" where
  "pad4 n = [digit_char (n div 1000), digit_char (n div 100 mod 10),
             digit_char (n div 10 mod 10), digit_char (n mod 10)]"

definition month_texts :: "nat \<Rightarrow> string list" where
  "month_texts m = pad2 m # (if m < 10 then [[digit_char m]] else [])"

definition day_texts :: "nat \<Rightarrow> string list" where
  "day_texts d = pad2 d # (if d < 10 then [[digit_char d], [CHR '' '', digit_char d]] else [])"

definition date_texts :: "nat \<Rightarrow> nat \<Rightarrow> nat \<Rightarrow> string list" where
  "date_texts y m d =
     concat (map (\<lambda>mt. map (\<lambda>dt. pad4 y @ ''-'' @ mt @ ''-'' @ dt) (day_texts d)) (month_texts m))"

definition is_date :: "nat \<Rightarrow> nat \<Rightarrow> nat \<Rightarrow> bool" where
  "is_date y m d = (1 \<le> y \<and> y \<le> 9999 \<and> 1 \<le> m \<and> m \<le> 12 \<and> 1 \<le> d \<and> d \<le> days_in_month y m)"

section \<open>The SQLite database\<close>

text \<open>
  One row type per table of \<^verbatim>\<open>SCHEMA\<close>, the fields named after the columns with the
  alias the queries of \<^verbatim>\<open>server.py\<close> give the table (\<^verbatim>\<open>A\<close>, \<^verbatim>\<open>G\<close>,
  \<^verbatim>\<open>S\<close>, \<^verbatim>\<open>R\<close>, \<^verbatim>\<open>RS\<close>).  A column declared \<^verbatim>\<open>NOT NULL\<close> or
  \<^verbatim>\<open>PRIMARY KEY\<close> holds a value, any other an optional one.  The rows hold values
  of the declared column types, which is all the facade ever writes.
\<close>

record artist_row =
  A_artist_id :: int
  A_name :: string
  A_country :: "string option"

record genre_row =
  G_genre_id :: int
  G_name :: string

record store_row =
  S_store_id :: int
  S_name :: string
  S_state :: "string option"
  S_address :: "string option"

record record_row =
  R_record_id :: int
  R_title :: string
  R_artist_id :: "int option"
  R_genre_id :: "int option"
  R_year :: "int option"
  R_condition :: "string option"
  R_price :: "pyfloat option"
  R_purchase_date :: "string option"

text \<open>
  Modelled from the spec: the \<^verbatim>\<open>recordStores\<close> table, which the queries of
  \<^verbatim>\<open>server.py\<close> read and write and no statement of \<^verbatim>\<open>SCHEMA\<close> creates.  The
  spec calls it the many-to-many link table between Records and Stores, whose insertion
  ignores duplicate-link conflicts: a row is a pair \<^verbatim>\<open>(record_id, store_id)\<close>, and a
  pair is stored once.
\<close>

record link_row =
  RS_record_id :: int
  RS_store_id :: int

text \<open>
  The database file: each table is absent (\<open>None\<close>) or holds its rows in rowid order;
  \<open>seq_T\<close> is the entry of \<^verbatim>\<open>sqlite_sequence\<close> for the \<^verbatim>\<open>AUTOINCREMENT\<close> key
  of table \<open>T\<close> (0 when there is none).  A function of the model takes the committed
  database and returns the committed database it leaves: what a connection changed and
  did not commit before an exception is lost with the connection.
\<close>

record database =
  Artists :: "artist_row list option"
  Genres :: "genre_row list option"
  Records :: "record_row list option"
  Stores :: "store_row list option"
  recordStores :: "link_row list option"
  seq_Artists :: int
  seq_Genres :: int
  seq_Records :: int
  seq_Stores :: int
  indexes :: "string list"

definition empty_db :: database where
  "empty_db =
     \<lparr>Artists = None, Genres = None, Records = None, Stores = None, recordStores = None,
      seq_Artists = 0, seq_Genres = 0, seq_Records = 0, seq_Stores = 0, indexes = []\<rparr>"

definition rows_of :: "'a list option \<Rightarrow> 'a list" where
  "rows_of t = (case t of None \<Rightarrow> [] | Some rows \<Rightarrow> rows)"

subsection \<open>\<^verbatim>\<open>SCHEMA\<close> and \<^verbatim>\<open>init_db\<close>\<close>

datatype table = TArtists | TGenres | TRecords | TStores | TRecordStores

text \<open>The two kinds of statement in \<^verbatim>\<open>SCHEMA\<close>, both \<^verbatim>\<open>IF NOT EXISTS\<close>.\<close>

datatype stmt =
    CreateTable table
  | CreateIndex string table

text \<open>\<^verbatim>\<open>SCHEMA\<close>: a list of two scripts.\<close>

definition SCHEMA :: "stmt list list" where
  "SCHEMA =
     [[CreateTable TArtists,
       CreateIndex ''idx_artists_name'' TArtists],
      [CreateTable TGenres,
       CreateTable TRecords,
       CreateIndex ''idx_records_artist'' TRecords,
       CreateIndex ''idx_records_genre'' TRecords,
       CreateIndex ''idx_records_purchase_date'' TRecords,
       CreateIndex ''idx_records_year'' TRecords,
       CreateTable TStores,
       CreateIndex ''idx_stores_name'' TStores]]"

fun has_table :: "database \<Rightarrow> table \<Rightarrow> bool" where
  "has_table d TArtists = (Artists d \<noteq> None)"
| "has_table d TGenres = (Genres d \<noteq> None)"
| "has_table d TRecords = (Records d \<noteq> None)"
| "has_table d TStores = (Stores d \<noteq> None)"
| "has_table d TRecordStores = (recordStores d \<noteq> None)"

fun create_table :: "database \<Rightarrow> table \<Rightarrow> database" where
  "create_table d TArtists = d\<lparr>Artists := Some []\<rparr>"
| "create_table d TGenres = d\<lparr>Genres := Some []\<rparr>"
| "create_table d TRecords = d\<lparr>Records := Some []\<rparr>"
| "create_table d TStores = d\<lparr>Stores := Some []\<rparr>"
| "create_table d TRecordStores = d\<lparr>recordStores := Some []\<rparr>"

text \<open>A statement changes nothing when its object exists; an index on a missing table
  is an \<^verbatim>\<open>OperationalError\<close>.\<close>

fun exec_stmt :: "database \<Rightarrow> stmt \<Rightarrow> exn + database" where
  "exec_stmt d (CreateTable t) = Inr (if has_table d t then d else create_table d t)"
| "exec_stmt d (CreateIndex n t) =
     (if \<not> has_table d t then Inl OperationalError
      else if n \<in> set (indexes d) then Inr d
      else Inr (d\<lparr>indexes := indexes d @ [n]\<rparr>))"

text \<open>\<^verbatim>\<open>cur.executescript(s)\<close> runs the statements in order, each in its own
  transaction, and stops at the first error.\<close>

fun executescript :: "database \<Rightarrow> stmt list \<Rightarrow> database \<times> (exn + unit)" where
  "executescript d [] = (d, Inr ())"
| "executescript d (s # ss) =
     (case exec_stmt d s of
        Inl e \<Rightarrow> (d, Inl e)
      | Inr d' \<Rightarrow> executescript d' ss)"

text \<open>The loop \<^verbatim>\<open>for s in SCHEMA: cur.executescript(s)\<close>.\<close>

fun executescripts :: "database \<Rightarrow> stmt list list \<Rightarrow> database \<times> (exn + unit)" where
  "executescripts d [] = (d, Inr ())"
| "executescripts d (s # ss) =
     (case executescript d s of
        (d', Inl e) \<Rightarrow> (d', Inl e)
      | (d', Inr u) \<Rightarrow> executescripts d' ss)"

definition init_db :: "database \<Rightarrow> database \<times> (exn + unit)" where
  "init_db d = executescripts d SCHEMA"

text \<open>\<^verbatim>\<open>PRAGMA table_info\<close>: the column names of a table, none for a missing table.\<close>

fun columns :: "table \<Rightarrow> string list" where
  "columns TArtists = [''artist_id'', ''name'', ''country'']"
| "columns TGenres = [''genre_id'', ''name'']"
| "columns TRecords = [''record_id'', ''title'', ''artist_id'', ''genre_id'', ''year'',
     ''condition'', ''price'', ''purchase_date'']"
| "columns TStores = [''store_id'', ''name'', ''state'', ''address'']"
| "columns TRecordStores = [''record_id'', ''store_id'']"

definition table_info :: "database \<Rightarrow> table \<Rightarrow> string list" where
  "table_info d t = (if has_table d t then columns t else [])"

subsection \<open>Row ids\<close>

text \<open>
  The key of every table of \<^verbatim>\<open>SCHEMA\<close> is \<^verbatim>\<open>INTEGER PRIMARY KEY AUTOINCREMENT\<close>:
  an insertion takes one more than the largest rowid the table ever had, and fails once
  that is the largest 64-bit integer.
\<close>

definition next_rowid :: "int \<Rightarrow> int list \<Rightarrow> exn + int" where
  "next_rowid seq ids =
     (let m = fold max ids seq
      in if 2 ^ 63 - 1 \<le> m then Inl OperationalError else Inr (m + 1))"

text \<open>
  The \<^verbatim>\<open>sqlite3\<close> module binds a Python integer as a 64-bit SQLite
  \<^verbatim>\<open>INTEGER\<close> and raises \<^verbatim>\<open>OverflowError\<close> for one outside that range.  A
  statement is prepared before its parameters are bound, so a missing table is reported
  first.
\<close>

definition fits_int64 :: "int \<Rightarrow> bool" where
  "fits_int64 i = (- (2 ^ 63) \<le> i \<and> i < 2 ^ 63)"

definition fits_opt :: "int option \<Rightarrow> bool" where
  "fits_opt v = (case v of None \<Rightarrow> True | Some i \<Rightarrow> fits_int64 i)"

text \<open>The table can still hand out a rowid.\<close>

definition rowid_free :: "int \<Rightarrow> int list \<Rightarrow> bool" where
  "rowid_free seq ids = (fold max ids seq < 2 ^ 63 - 1)"

text \<open>Python's \<^verbatim>\<open>name or ''\<close> and the truth value of an optional string or integer.\<close>

definition or_empty :: "string option \<Rightarrow> string" where
  "or_empty name = (case name of None \<Rightarrow> [] | Some s \<Rightarrow> s)"

definition truthy_str :: "string option \<Rightarrow> bool" where
  "truthy_str v = (case v of None \<Rightarrow> False | Some s \<Rightarrow> s \<noteq> [])"

definition truthy_int :: "int option \<Rightarrow> bool" where
  "truthy_int v = (case v of None \<Rightarrow> False | Some i \<Rightarrow> i \<noteq> 0)"

section \<open>Entity repositories\<close>

text \<open>
  \<^verbatim>\<open>find_or_create_artist(name, country=None)\<close>.  \<^verbatim>\<open>fetchone\<close> is the first
  matching row.
\<close>

definition find_or_create_artist ::
  "database \<Rightarrow> string option \<Rightarrow> string option \<Rightarrow> database \<times> (exn + int option)" where
  "find_or_create_artist d name country =
     (let name = strip (or_empty name)
      in if name = [] then (d, Inr None)
         else case Artists d of
                None \<Rightarrow> (d, Inl OperationalError)
              | Some rows \<Rightarrow>
                  (case find (\<lambda>a. A_name a = name) rows of
                     Some r \<Rightarrow> (d, Inr (Some (A_artist_id r)))
                   | None \<Rightarrow>
                       (case next_rowid (seq_Artists d) (map A_artist_id rows) of
                          Inl e \<Rightarrow> (d, Inl e)
                        | Inr artist_id \<Rightarrow>
                            (d\<lparr>Artists := Some (rows @
                                  [\<lparr>A_artist_id = artist_id, A_name = name, A_country = country\<rparr>]),
                               seq_Artists := artist_id\<rparr>,
                             Inr (Some artist_id)))))"

definition get_artists_db :: "database \<Rightarrow> exn + artist_row list" where
  "get_artists_db d =
     (case Artists d of None \<Rightarrow> Inl OperationalError | Some rows \<Rightarrow> Inr (sort_key A_name rows))"

text \<open>\<^verbatim>\<open>find_or_create_genre(name)\<close> strips the name as it is: \<^verbatim>\<open>None\<close> has no
  \<^verbatim>\<open>strip\<close>.\<close>

definition find_or_create_genre ::
  "database \<Rightarrow> string option \<Rightarrow> database \<times> (exn + int option)" where
  "find_or_create_genre d name =
     (case name of
        None \<Rightarrow> (d, Inl AttributeError)
      | Some n \<Rightarrow>
          (let name = strip n
           in if name = [] then (d, Inr None)
              else case Genres d of
                     None \<Rightarrow> (d, Inl OperationalError)
                   | Some rows \<Rightarrow>
                       (case find (\<lambda>g. G_name g = name) rows of
                          Some r \<Rightarrow> (d, Inr (Some (G_genre_id r)))
                        | None \<Rightarrow>
                            (case next_rowid (seq_Genres d) (map G_genre_id rows) of
                               Inl e \<Rightarrow> (d, Inl e)
                             | Inr genre_id \<Rightarrow>
                                 (d\<lparr>Genres := Some (rows @ [\<lparr>G_genre_id = genre_id, G_name = name\<rparr>]),
                                    seq_Genres := genre_id\<rparr>,
                                  Inr (Some genre_id))))))"

definition get_genres_db :: "database \<Rightarrow> exn + genre_row list" where
  "get_genres_db d =
     (case Genres d of None \<Rightarrow> Inl OperationalError | Some rows \<Rightarrow> Inr (sort_key G_name rows))"

definition get_stores_db :: "database \<Rightarrow> exn + store_row list" where
  "get_stores_db d =
     (case Stores d of None \<Rightarrow> Inl OperationalError | Some rows \<Rightarrow> Inr (sort_key S_name rows))"

text \<open>\<^verbatim>\<open>find_or_create_store(name, state=None, address=None)\<close> matches by name and
  address when an address is given, by name alone otherwise.\<close>

definition find_or_create_store ::
  "database \<Rightarrow> string option \<Rightarrow> string option \<Rightarrow> string option \<Rightarrow>
   database \<times> (exn + int option)" where
  "find_or_create_store d name state address =
     (let name = strip (or_empty name)
      in if name = [] then (d, Inr None)
         else case Stores d of
                None \<Rightarrow> (d, Inl OperationalError)
              | Some rows \<Rightarrow>
                  (case (if truthy_str address
                         then find (\<lambda>s. S_name s = name \<and> S_address s = address) rows
                         else find (\<lambda>s. S_name s = name) rows) of
                     Some r \<Rightarrow> (d, Inr (Some (S_store_id r)))
                   | None \<Rightarrow>
                       (case next_rowid (seq_Stores d) (map S_store_id rows) of
                          Inl e \<Rightarrow> (d, Inl e)
                        | Inr store_id \<Rightarrow>
                            (d\<lparr>Stores := Some (rows @
                                  [\<lparr>S_store_id = store_id, S_name = name, S_state = state,
                                    S_address = address\<rparr>]),
                               seq_Stores := store_id\<rparr>,
                             Inr (Some store_id)))))"

section \<open>The record repository\<close>

text \<open>
  The dict \<^verbatim>\<open>data\<close> handed to \<^verbatim>\<open>add_record_db\<close> and \<^verbatim>\<open>update_record_db\<close>.
  The two values whose Python type the functions test, \<^verbatim>\<open>year\<close> and \<^verbatim>\<open>price\<close>,
  stay Python values; the others have the types the facade gives them, \<open>None\<close> standing
  for \<^verbatim>\<open>None\<close> and for a missing key alike.  For \<^verbatim>\<open>store_id\<close> the functions
  tell the two apart (\<^verbatim>\<open>'store_id' in data\<close>): \<open>None\<close> is the missing key.
\<close>

record record_data =
  d_title :: "string option"
  d_artist_id :: "int option"
  d_genre_id :: "int option"
  d_year :: pyval
  d_condition :: "string option"
  d_price :: pyval
  d_purchase_date :: "string option"
  d_store_id :: "int option option"

text \<open>\<^verbatim>\<open>isinstance(y, int)\<close>: an integer or a boolean, with its integer value.\<close>

fun int_value :: "pyval \<Rightarrow> int option" where
  "int_value (PInt i) = Some i"
| "int_value (PBool b) = Some (if b then 1 else 0)"
| "int_value v = None"

text \<open>\<^verbatim>\<open>isinstance(p, (int, float))\<close>, with the result of \<^verbatim>\<open>float(p)\<close>.\<close>

fun float_value :: "pyval \<Rightarrow> (exn + pyfloat) option" where
  "float_value (PInt i) = Some (float_of_int i)"
| "float_value (PBool b) = Some (Inr (Finite (if b then 1 else 0)))"
| "float_value (PFloat f) = Some (Inr f)"
| "float_value v = None"

text \<open>
  The defensive validation both functions start with; it yields the year.
\<close>

definition validate_data :: "record_data \<Rightarrow> exn + int" where
  "validate_data data =
     (if d_title data = None then Inl (ValueError ''title required'')
      else case int_value (d_year data) of
             None \<Rightarrow> Inl (ValueError ''year must be a valid number between 1800 and 2100'')
           | Some y \<Rightarrow>
               if y < 1800 \<or> 2100 < y
               then Inl (ValueError ''year must be a valid number between 1800 and 2100'')
               else (case float_value (d_price data) of
                       None \<Rightarrow> Inl (ValueError ''price must be a valid non-negative number'')
                     | Some (Inl e) \<Rightarrow> Inl e
                     | Some (Inr f) \<Rightarrow>
                         if float_less_int f 0
                         then Inl (ValueError ''price must be a valid non-negative number'')
                         else Inr y))"

text \<open>
  Binding the validated price to the \<^verbatim>\<open>REAL\<close> column: an integer must fit 64 bits
  and is stored as the nearest double, a NaN is stored as \<^verbatim>\<open>NULL\<close>.
\<close>

fun bind_price :: "pyval \<Rightarrow> exn + pyfloat option" where
  "bind_price (PInt i) =
     (if - (2 ^ 63) \<le> i \<and> i < 2 ^ 63 then Inr (Some (Finite (of_int (round_to_double i))))
      else Inl OverflowError)"
| "bind_price (PBool b) = Inr (Some (Finite (if b then 1 else 0)))"
| "bind_price (PFloat NaN) = Inr None"
| "bind_price (PFloat f) = Inr (Some f)"
| "bind_price v = Inr None"

text \<open>\<^verbatim>\<open>INSERT OR IGNORE INTO recordStores\<close>: a pair already stored is left alone.\<close>

definition insert_or_ignore :: "link_row \<Rightarrow> link_row list \<Rightarrow> link_row list" where
  "insert_or_ignore l links = (if l \<in> set links then links else links @ [l])"

definition add_record_db :: "database \<Rightarrow> record_data \<Rightarrow> database \<times> (exn + int)" where
  "add_record_db d data =
     (case validate_data data of
        Inl e \<Rightarrow> (d, Inl e)
      | Inr y \<Rightarrow>
          (case Records d of
             None \<Rightarrow> (d, Inl OperationalError)
           | Some rows \<Rightarrow>
               if \<not> (fits_opt (d_artist_id data) \<and> fits_opt (d_genre_id data))
               then (d, Inl OverflowError)
               else
               (case bind_price (d_price data) of
                  Inl e \<Rightarrow> (d, Inl e)
                | Inr p \<Rightarrow>
                    (case next_rowid (seq_Records d) (map R_record_id rows) of
                       Inl e \<Rightarrow> (d, Inl e)
                     | Inr record_id \<Rightarrow>
                         (let d1 = d\<lparr>Records := Some (rows @
                                    [\<lparr>R_record_id = record_id, R_title = the (d_title data),
                                      R_artist_id = d_artist_id data, R_genre_id = d_genre_id data,
                                      R_year = Some y, R_condition = d_condition data,
                                      R_price = p, R_purchase_date = d_purchase_date data\<rparr>]),
                                    seq_Records := record_id\<rparr>;
                              store_id = (case d_store_id data of None \<Rightarrow> None | Some s \<Rightarrow> s)
                          in if truthy_int store_id
                             then (case recordStores d1 of
                                     None \<Rightarrow> (d, Inl OperationalError)
                                   | Some links \<Rightarrow>
                                       if \<not> fits_opt store_id then (d, Inl OverflowError)
                                       else
                                       (d1\<lparr>recordStores := Some (insert_or_ignore
                                             \<lparr>RS_record_id = record_id, RS_store_id = the store_id\<rparr> links)\<rparr>,
                                        Inr record_id))
                             else (d1, Inr record_id))))))"

definition update_record_db :: "database \<Rightarrow> int \<Rightarrow> record_data \<Rightarrow> database \<times> (exn + unit)" where
  "update_record_db d record_id data =
     (case validate_data data of
        Inl e \<Rightarrow> (d, Inl e)
      | Inr y \<Rightarrow>
          (case Records d of
             None \<Rightarrow> (d, Inl OperationalError)
           | Some rows \<Rightarrow>
               if \<not> (fits_opt (d_artist_id data) \<and> fits_opt (d_genre_id data))
               then (d, Inl OverflowError)
               else
               (case bind_price (d_price data) of
                  Inl e \<Rightarrow> (d, Inl e)
                | Inr p \<Rightarrow>
                    if \<not> fits_int64 record_id then (d, Inl OverflowError)
                    else
                    (let d1 = d\<lparr>Records := Some (map (\<lambda>r.
                                 if R_record_id r = record_id
                                 then r\<lparr>R_title := the (d_title data),
                                        R_artist_id := d_artist_id data, R_genre_id := d_genre_id data,
                                        R_year := Some y, R_condition := d_condition data,
                                        R_price := p, R_purchase_date := d_purchase_date data\<rparr>
                                 else r) rows)\<rparr>
                     in case d_store_id data of
                          None \<Rightarrow> (d1, Inr ())
                        | Some store_id \<Rightarrow>
                            (case recordStores d1 of
                               None \<Rightarrow> (d, Inl OperationalError)
                             | Some links \<Rightarrow>
                                 (let links1 = filter (\<lambda>l. RS_record_id l \<noteq> record_id) links
                                  in if truthy_int store_id
                                     then if \<not> fits_opt store_id then (d, Inl OverflowError)
                                          else
                                          (d1\<lparr>recordStores := Some (insert_or_ignore
                                             \<lparr>RS_record_id = record_id, RS_store_id = the store_id\<rparr> links1)\<rparr>,
                                           Inr ())
                                     else (d1\<lparr>recordStores := Some links1\<rparr>, Inr ())))))))"

text \<open>
  \<^verbatim>\<open>delete_record_db(record_id)\<close> commits after the two deletions and again after
  removing the artist, so an error of the last statement leaves the first commit.  The
  first statement binds \<^verbatim>\<open>record_id\<close>, which the route takes from the URL as an
  integer of any size.
\<close>

definition delete_record_db :: "database \<Rightarrow> int \<Rightarrow> database \<times> (exn + unit)" where
  "delete_record_db d record_id =
     (case Records d of
        None \<Rightarrow> (d, Inl OperationalError)
      | Some rows \<Rightarrow>
          if \<not> fits_int64 record_id then (d, Inl OverflowError)
          else
          (let artist_id = (case find (\<lambda>r. R_record_id r = record_id) rows of
                              Some row \<Rightarrow> R_artist_id row
                            | None \<Rightarrow> None)
           in case recordStores d of
                None \<Rightarrow> (d, Inl OperationalError)
              | Some links \<Rightarrow>
                  (let rows1 = filter (\<lambda>r. R_record_id r \<noteq> record_id) rows;
                       d1 = d\<lparr>recordStores := Some (filter (\<lambda>l. RS_record_id l \<noteq> record_id) links),
                              Records := Some rows1\<rparr>
                   in if truthy_int artist_id
                      then (let cnt = length (filter (\<lambda>r. R_artist_id r = artist_id) rows1)
                            in if cnt = 0
                               then (case Artists d1 of
                                       None \<Rightarrow> (d1, Inl OperationalError)
                                     | Some artists \<Rightarrow>
                                         (d1\<lparr>Artists := Some (filter
                                                (\<lambda>a. A_artist_id a \<noteq> the artist_id) artists)\<rparr>,
                                          Inr ()))
                               else (d1, Inr ()))
                      else (d1, Inr ()))))"

subsection \<open>\<^verbatim>\<open>fetch_all_records_db\<close>\<close>

text \<open>The row the listing and the report return for a record; the facade turns it into
  a dict with the keys \<^verbatim>\<open>record_id\<close>, \<^verbatim>\<open>title\<close>, \<^verbatim>\<open>artist\<close>,
  \<^verbatim>\<open>genre\<close>, \<^verbatim>\<open>store\<close>, \<^verbatim>\<open>year\<close>, \<^verbatim>\<open>condition\<close>,
  \<^verbatim>\<open>price\<close> and \<^verbatim>\<open>purchase_date\<close>.\<close>

record record_view =
  v_record_id :: int
  v_title :: string
  v_artist :: "string option"
  v_genre :: "string option"
  v_store :: "string option"
  v_year :: "int option"
  v_condition :: "string option"
  v_price :: "pyfloat option"
  v_purchase_date :: "string option"

text \<open>\<^verbatim>\<open>xs LEFT JOIN ys ON c\<close>, with \<open>f x\<close> the rows of \<open>ys\<close> that satisfy \<open>c\<close> with
  \<open>x\<close>: a row without a match is kept once, with \<^verbatim>\<open>NULL\<close>s.\<close>

definition left_join :: "'a list \<Rightarrow> ('a \<Rightarrow> 'b list) \<Rightarrow> ('a \<times> 'b option) list" where
  "left_join xs f =
     concat (map (\<lambda>x. if f x = [] then [(x, None)] else map (\<lambda>y. (x, Some y)) (f x)) xs)"

text \<open>A row of \<^verbatim>\<open>Records R\<close> joined to \<^verbatim>\<open>Artists A\<close>, \<^verbatim>\<open>Genres G\<close>,
  \<^verbatim>\<open>recordStores RS\<close> and \<^verbatim>\<open>Stores S\<close>.\<close>

type_synonym joined =
  "(((record_row \<times> artist_row option) \<times> genre_row option) \<times> link_row option) \<times> store_row option"

definition jR :: "joined \<Rightarrow> record_row" where
  "jR j = fst (fst (fst (fst j)))"

definition jA :: "joined \<Rightarrow> artist_row option" where
  "jA j = snd (fst (fst (fst j)))"

definition jG :: "joined \<Rightarrow> genre_row option" where
  "jG j = snd (fst (fst j))"

definition jRS :: "joined \<Rightarrow> link_row option" where
  "jRS j = snd (fst j)"

definition jS :: "joined \<Rightarrow> store_row option" where
  "jS j = snd j"

text \<open>
  The \<^verbatim>\<open>FROM\<close> clause both queries build.  A join that the query leaves out yields
  \<^verbatim>\<open>NULL\<close> for its table, which is what the query then selects in its place.
\<close>

definition join_records :: "database \<Rightarrow> bool \<Rightarrow> bool \<Rightarrow> bool \<Rightarrow> joined list" where
  "join_records d join_artist join_genre join_store =
     (let j1 = left_join (rows_of (Records d))
                 (\<lambda>r. if join_artist
                      then filter (\<lambda>a. R_artist_id r = Some (A_artist_id a)) (rows_of (Artists d))
                      else []);
          j2 = left_join j1
                 (\<lambda>j. if join_genre
                      then filter (\<lambda>g. R_genre_id (fst j) = Some (G_genre_id g)) (rows_of (Genres d))
                      else []);
          j3 = left_join j2
                 (\<lambda>j. if join_store
                      then filter (\<lambda>l. R_record_id (fst (fst j)) = RS_record_id l)
                             (rows_of (recordStores d))
                      else [])
      in left_join j3
           (\<lambda>j. if join_store
                then (case snd j of
                        None \<Rightarrow> []
                      | Some l \<Rightarrow> filter (\<lambda>s. RS_store_id l = S_store_id s) (rows_of (Stores d)))
                else []))"

text \<open>The selected columns of a joined row, the store column given apart.\<close>

definition view_of :: "joined \<Rightarrow> string option \<Rightarrow> record_view" where
  "view_of j st =
     \<lparr>v_record_id = R_record_id (jR j), v_title = R_title (jR j),
      v_artist = map_option A_name (jA j), v_genre = map_option G_name (jG j),
      v_store = st,
      v_year = R_year (jR j), v_condition = R_condition (jR j), v_price = R_price (jR j),
      v_purchase_date = R_purchase_date (jR j)\<rparr>"

text \<open>\<^verbatim>\<open>GROUP_CONCAT(S.name, ', ')\<close>: the names that are not \<^verbatim>\<open>NULL\<close>, joined;
  \<^verbatim>\<open>NULL\<close> when there is none.\<close>

fun join_with :: "string \<Rightarrow> string list \<Rightarrow> string" where
  "join_with sep [] = []"
| "join_with sep [x] = x"
| "join_with sep (x # y # ys) = x @ sep @ join_with sep (y # ys)"

definition group_concat :: "string option list \<Rightarrow> string option" where
  "group_concat vs =
     (let names = concat (map (\<lambda>v. case v of None \<Rightarrow> [] | Some n \<Rightarrow> [n]) vs)
      in if names = [] then None else Some (join_with '', '' names))"

text \<open>\<^verbatim>\<open>GROUP BY R.record_id\<close>: one row for each key, in the order the keys first
  appear; the columns outside the aggregate are read from the first row of the group
  (they are the same in every row of a group when the keys of the tables are unique).\<close>

definition group_by_record :: "joined list \<Rightarrow> record_view list" where
  "group_by_record js =
     map (\<lambda>k. let grp = filter (\<lambda>j. R_record_id (jR j) = k) js
              in view_of (hd grp) (group_concat (map (\<lambda>j. map_option S_name (jS j)) grp)))
         (remdups (map (\<lambda>j. R_record_id (jR j)) js))"

text \<open>\<^verbatim>\<open>ORDER BY R.record_id DESC\<close>.\<close>

definition order_by_id_desc :: "record_view list \<Rightarrow> record_view list" where
  "order_by_id_desc vs = sort_key (\<lambda>v. - v_record_id v) vs"

text \<open>
  \<^verbatim>\<open>fetch_all_records_db()\<close> reads the column names of the three tables and tests
  whether \<^verbatim>\<open>recordStores\<close> and \<^verbatim>\<open>Stores\<close> exist, and builds its query from that.
  A table of the model has the columns of \<^verbatim>\<open>SCHEMA\<close>, so of the branches for an older
  layout (a key named \<^verbatim>\<open>id\<close>, text columns \<^verbatim>\<open>artist\<close>, \<^verbatim>\<open>genre\<close>, \<^verbatim>\<open>store\<close>
  on Records) only the tests remain: without the Records table the query names a missing
  table, and a text column that is not there is selected as \<^verbatim>\<open>NULL\<close>.
\<close>

definition fetch_all_records_db :: "database \<Rightarrow> exn + record_view list" where
  "fetch_all_records_db d =
     (let rec_cols = table_info d TRecords;
          has_artist_id = (''artist_id'' \<in> set rec_cols);
          artist_cols = table_info d TArtists;
          artist_pk = (if ''artist_id'' \<in> set artist_cols then Some ''artist_id''
                       else if ''id'' \<in> set artist_cols then Some ''id'' else None);
          has_genre_id = (''genre_id'' \<in> set rec_cols);
          genre_cols = table_info d TGenres;
          genre_pk = (if ''genre_id'' \<in> set genre_cols then Some ''genre_id''
                      else if ''id'' \<in> set genre_cols then Some ''id'' else None);
          has_recordstores = has_table d TRecordStores;
          has_stores = has_table d TStores
      in if \<not> has_table d TRecords then Inl OperationalError
         else let js = join_records d (has_artist_id \<and> artist_pk \<noteq> None)
                         (has_genre_id \<and> genre_pk \<noteq> None) (has_recordstores \<and> has_stores)
              in Inr (order_by_id_desc
                        (if has_recordstores \<and> has_stores then group_by_record js
                         else map (\<lambda>j. view_of j None) js)))"

section \<open>The HTTP facade\<close>

text \<open>
  What a route returns: the JSON body with status 200 or 201, the empty body with 204, the
  \<^verbatim>\<open>{'error': message}\<close> body with 400, and the 500 response Flask makes of an
  exception the route does not catch.
\<close>

datatype 'a response =
    OK 'a
  | Created 'a
  | NoContent
  | BadRequest string
  | InternalServerError exn

definition api_get_records :: "database \<Rightarrow> record_view list response" where
  "api_get_records d =
     (case fetch_all_records_db d of
        Inl e \<Rightarrow> InternalServerError e
      | Inr rows \<Rightarrow> OK rows)"

text \<open>
  \<^verbatim>\<open>api_add_record\<close> and \<^verbatim>\<open>api_update_record\<close> run the same lines from reading
  the payload to building \<^verbatim>\<open>data\<close>; \<open>read_record_payload\<close> is that common part.  It
  returns the database the two find-or-create calls leave, and the response when the
  route returns early.
\<close>

definition read_record_payload ::
  "conv \<Rightarrow> database \<Rightarrow> pyval \<Rightarrow> database \<times> ('a response + record_data)" where
  "read_record_payload B d body =
     (case get_payload body of
        Inl e \<Rightarrow> (d, Inl (InternalServerError e))
      | Inr payload \<Rightarrow>
     (case sanitize_text (dict_get payload ''title'') 255 of
        Inl e \<Rightarrow> (d, Inl (InternalServerError e))
      | Inr title \<Rightarrow>
     if \<not> truthy_str title then (d, Inl (BadRequest ''title required''))
     else
     (case sanitize_text (dict_get payload ''artist_name'') 255 of
        Inl e \<Rightarrow> (d, Inl (InternalServerError e))
      | Inr artist_name \<Rightarrow>
     (case sanitize_text (dict_get payload ''genre'') 255 of
        Inl e \<Rightarrow> (d, Inl (InternalServerError e))
      | Inr genre_name \<Rightarrow>
     (case (if truthy_str artist_name then find_or_create_artist d artist_name None
            else (d, Inr None)) of
        (d1, Inl e) \<Rightarrow> (d1, Inl (InternalServerError e))
      | (d1, Inr artist_id) \<Rightarrow>
     (case (if truthy_str genre_name then find_or_create_genre d1 genre_name
            else (d1, Inr None)) of
        (d2, Inl e) \<Rightarrow> (d2, Inl (InternalServerError e))
      | (d2, Inr genre_id) \<Rightarrow>
     (case parse_int B (dict_get payload ''year'') (Some 1800) (Some 2100) of
        Inl e \<Rightarrow> (d2, Inl (InternalServerError e))
      | Inr None \<Rightarrow>
          (d2, Inl (BadRequest ''year must be a valid number between 1800 and 2100''))
      | Inr (Some year) \<Rightarrow>
     (case sanitize_text (dict_get payload ''condition'') 255 of
        Inl e \<Rightarrow> (d2, Inl (InternalServerError e))
      | Inr condition \<Rightarrow>
     (case parse_float B (dict_get payload ''price'') (Some 0) None of
        Inl e \<Rightarrow> (d2, Inl (InternalServerError e))
      | Inr None \<Rightarrow> (d2, Inl (BadRequest ''price must be a valid non-negative number''))
      | Inr (Some price) \<Rightarrow>
     (case parse_date_yyyy_mm_dd (dict_get payload ''purchase_date'') of
        Inl e \<Rightarrow> (d2, Inl (InternalServerError e))
      | Inr purchase_date \<Rightarrow>
     (case parse_int B (dict_get payload ''store_id'') (Some 1) None of
        Inl e \<Rightarrow> (d2, Inl (InternalServerError e))
      | Inr store_id \<Rightarrow>
          (d2, Inr \<lparr>d_title = title, d_artist_id = artist_id, d_genre_id = genre_id,
                     d_year = PInt year, d_condition = condition, d_price = PFloat price,
                     d_purchase_date = purchase_date, d_store_id = Some store_id\<rparr>))))))))))))"

definition api_add_record :: "conv \<Rightarrow> database \<Rightarrow> pyval \<Rightarrow> database \<times> int response" where
  "api_add_record B d body =
     (case read_record_payload B d body of
        (d2, Inl resp) \<Rightarrow> (d2, resp)
      | (d2, Inr data) \<Rightarrow>
          (case add_record_db d2 data of
             (d3, Inl e) \<Rightarrow> (d3, InternalServerError e)
           | (d3, Inr rid) \<Rightarrow> (d3, Created rid)))"

definition api_update_record ::
  "conv \<Rightarrow> database \<Rightarrow> int \<Rightarrow> pyval \<Rightarrow> database \<times> unit response" where
  "api_update_record B d rid body =
     (case read_record_payload B d body of
        (d2, Inl resp) \<Rightarrow> (d2, resp)
      | (d2, Inr data) \<Rightarrow>
          (case update_record_db d2 rid data of
             (d3, Inl e) \<Rightarrow> (d3, InternalServerError e)
           | (d3, Inr u) \<Rightarrow> (d3, NoContent)))"

definition api_delete_record :: "database \<Rightarrow> int \<Rightarrow> database \<times> unit response" where
  "api_delete_record d rid =
     (case delete_record_db d rid of
        (d1, Inl e) \<Rightarrow> (d1, InternalServerError e)
      | (d1, Inr u) \<Rightarrow> (d1, NoContent))"

definition api_get_genres :: "database \<Rightarrow> genre_row list response" where
  "api_get_genres d =
     (case get_genres_db d of
        Inl e \<Rightarrow> InternalServerError e
      | Inr rows \<Rightarrow> OK rows)"

definition api_delete_genre :: "database \<Rightarrow> int \<Rightarrow> database \<times> unit response" where
  "api_delete_genre d gid =
     (case Records d of
        None \<Rightarrow> (d, InternalServerError OperationalError)
      | Some rows \<Rightarrow>
          (let cnt = length (filter (\<lambda>r. R_genre_id r = Some gid) rows)
           in if 0 < cnt then (d, BadRequest ''genre in use by records, cannot delete'')
              else (case Genres d of
                      None \<Rightarrow> (d, InternalServerError OperationalError)
                    | Some genres \<Rightarrow>
                        (d\<lparr>Genres := Some (filter (\<lambda>g. G_genre_id g \<noteq> gid) genres)\<rparr>,
                         NoContent))))"

subsection \<open>\<^verbatim>\<open>api_report_records\<close>\<close>

text \<open>
  Of the statistics only \<^verbatim>\<open>count\<close> is modelled: the averages, minima and maxima are
  floating-point aggregates, and the breakdown by artist repeats the count per artist.
\<close>

record report =
  report_rows :: "record_view list"
  stats_count :: nat

text \<open>A condition of the \<^verbatim>\<open>WHERE\<close> clause reads a row of \<^verbatim>\<open>Records R\<close> and the
  row of \<^verbatim>\<open>recordStores RS\<close> joined to it.  A comparison with \<^verbatim>\<open>NULL\<close> selects
  nothing; text is compared byte by byte.\<close>

type_synonym cond = "record_row \<Rightarrow> link_row option \<Rightarrow> bool"

definition purchase_date_ge :: "string \<Rightarrow> cond" where
  "purchase_date_ge v r l = (case R_purchase_date r of None \<Rightarrow> False | Some p \<Rightarrow> v \<le> p)"

definition purchase_date_le :: "string \<Rightarrow> cond" where
  "purchase_date_le v r l = (case R_purchase_date r of None \<Rightarrow> False | Some p \<Rightarrow> p \<le> v)"

definition artist_id_eq :: "int \<Rightarrow> cond" where
  "artist_id_eq v r l = (R_artist_id r = Some v)"

definition genre_id_eq :: "int \<Rightarrow> cond" where
  "genre_id_eq v r l = (R_genre_id r = Some v)"

definition store_id_eq :: "int \<Rightarrow> cond" where
  "store_id_eq v r l = (case l of None \<Rightarrow> False | Some x \<Rightarrow> RS_store_id x = v)"

text \<open>The list \<^verbatim>\<open>where\<close> as the route appends to it, and \<^verbatim>\<open>' AND '.join(where)\<close>.\<close>

definition build_where ::
  "string option \<Rightarrow> string option \<Rightarrow> int option \<Rightarrow> int option \<Rightarrow> int option \<Rightarrow> cond list" where
  "build_where start_date end_date artist_id genre_id store_id =
     (if truthy_str start_date then [purchase_date_ge (the start_date)] else []) @
     (if truthy_str end_date then [purchase_date_le (the end_date)] else []) @
     (if truthy_int artist_id then [artist_id_eq (the artist_id)] else []) @
     (if truthy_int genre_id then [genre_id_eq (the genre_id)] else []) @
     (if truthy_int store_id then [store_id_eq (the store_id)] else [])"

definition where_sql :: "cond list \<Rightarrow> cond" where
  "where_sql conds r l = list_all (\<lambda>c. c r l) conds"

definition api_report_records :: "conv \<Rightarrow> database \<Rightarrow> pyval \<Rightarrow> report response" where
  "api_report_records B d body =
     (case get_payload body of
        Inl e \<Rightarrow> InternalServerError e
      | Inr payload \<Rightarrow>
     (case parse_date_yyyy_mm_dd (dict_get payload ''start_date'') of
        Inl e \<Rightarrow> InternalServerError e
      | Inr start_date \<Rightarrow>
     (case parse_date_yyyy_mm_dd (dict_get payload ''end_date'') of
        Inl e \<Rightarrow> InternalServerError e
      | Inr end_date \<Rightarrow>
     (case parse_int B (dict_get payload ''artist_id'') (Some 1) None of
        Inl e \<Rightarrow> InternalServerError e
      | Inr artist_id \<Rightarrow>
     (case parse_int B (dict_get payload ''store_id'') (Some 1) None of
        Inl e \<Rightarrow> InternalServerError e
      | Inr store_id \<Rightarrow>
     (case parse_int B (dict_get payload ''genre_id'') (Some 1) None of
        Inl e \<Rightarrow> InternalServerError e
      | Inr genre_id \<Rightarrow>
     (let conds = build_where start_date end_date artist_id genre_id store_id;
          join_store = truthy_int store_id;
          has_recordstores = has_table d TRecordStores;
          has_stores = has_table d TStores
      in if \<not> (has_table d TRecords \<and> has_table d TArtists \<and> has_table d TGenres)
         then InternalServerError OperationalError
         else if \<not> (has_recordstores \<and> has_stores) \<and> join_store
         then InternalServerError OperationalError
         else if \<not> (fits_opt artist_id \<and> fits_opt genre_id \<and> fits_opt store_id)
         then InternalServerError OverflowError
         else
           (let js = filter (\<lambda>j. where_sql conds (jR j) (jRS j))
                       (join_records d True True (has_recordstores \<and> has_stores));
                rows = order_by_id_desc (map (\<lambda>j. view_of j (map_option S_name (jS j))) js);
                counted = (if join_store
                           then left_join (rows_of (Records d))
                                  (\<lambda>r. filter (\<lambda>l. R_record_id r = RS_record_id l)
                                         (rows_of (recordStores d)))
                           else map (\<lambda>r. (r, None)) (rows_of (Records d)));
                cnt = length (filter (\<lambda>(r, l). where_sql conds r l) counted)
            in OK \<lparr>report_rows = rows, stats_count = cnt\<rparr>))))))))"

section \<open>Well-formed databases and a sample database\<close>

text \<open>
  The uniqueness the schema declares and SQLite enforces: the primary key of each table,
  the \<^verbatim>\<open>UNIQUE\<close> names of artists and genres, and a link pair stored once.
\<close>

definition db_ok :: "database \<Rightarrow> bool" where
  "db_ok d =
     (distinct (map A_artist_id (rows_of (Artists d))) \<and>
      distinct (map A_name (rows_of (Artists d))) \<and>
      distinct (map G_genre_id (rows_of (Genres d))) \<and>
      distinct (map G_name (rows_of (Genres d))) \<and>
      distinct (map S_store_id (rows_of (Stores d))) \<and>
      distinct (map R_record_id (rows_of (Records d))) \<and>
      distinct (rows_of (recordStores d)))"

text \<open>A small collection: three records by two artists, the first record linked to two
  stores.\<close>

definition sample_db :: database where
  "sample_db =
     \<lparr>Artists = Some
        [\<lparr>A_artist_id = 1, A_name = ''Miles Davis'', A_country = Some ''USA''\<rparr>,
         \<lparr>A_artist_id = 2, A_name = ''John Coltrane'', A_country = None\<rparr>],
      Genres = Some [\<lparr>G_genre_id = 1, G_name = ''Jazz''\<rparr>],
      Records = Some
        [\<lparr>R_record_id = 1, R_title = ''Kind of Blue'', R_artist_id = Some 1,
          R_genre_id = Some 1, R_year = Some 1959, R_condition = None,
          R_price = Some (Finite 25), R_purchase_date = Some ''2020-01-01''\<rparr>,
         \<lparr>R_record_id = 2, R_title = ''Blue Train'', R_artist_id = Some 2,
          R_genre_id = Some 1, R_year = Some 1958, R_condition = Some ''Good'',
          R_price = Some (Finite 20), R_purchase_date = Some ''2021-05-05''\<rparr>,
         \<lparr>R_record_id = 3, R_title = ''Milestones'', R_artist_id = Some 1,
          R_genre_id = None, R_year = Some 1958, R_condition = None,
          R_price = Some (Finite 15), R_purchase_date = None\<rparr>],
      Stores = Some
        [\<lparr>S_store_id = 1, S_name = ''Vinyl Shop'', S_state = None, S_address = None\<rparr>,
         \<lparr>S_store_id = 2, S_name = ''Disc World'', S_state = Some ''IN'',
          S_address = Some ''1 Main St''\<rparr>],
      recordStores = Some
        [\<lparr>RS_record_id = 1, RS_store_id = 1\<rparr>, \<lparr>RS_record_id = 1, RS_store_id = 2\<rparr>],
      seq_Artists = 2, seq_Genres = 1, seq_Records = 3, seq_Stores = 2,
      indexes = [''idx_artists_name'', ''idx_records_artist'', ''idx_records_genre'',
                 ''idx_records_purchase_date'', ''idx_records_year'', ''idx_stores_name'']\<rparr>"

text \<open>The conversions of strings to numbers, for inputs whose numeric fields hold no
  string: there the facade never calls them.\<close>

definition no_conv :: conv where
  "no_conv = \<lparr>int_str = (\<lambda>s. None), float_str = (\<lambda>s. None)\<rparr>"

section \<open>Payload values, for stating what the facade does with them\<close>

text \<open>A value \<^verbatim>\<open>sanitize_text\<close> can take: a string, or a value Python counts as false
  (a missing key, \<^verbatim>\<open>null\<close>, \<^verbatim>\<open>false\<close>, zero, an empty list or dict).\<close>

definition text_like :: "pyval \<Rightarrow> bool" where
  "text_like v = (case v of PStr s \<Rightarrow> True | _ \<Rightarrow> \<not> truthy v)"

text \<open>The text of such a value: stripped and cut to 255 characters, absent when nothing
  is left.\<close>

definition trimmed :: "pyval \<Rightarrow> string option" where
  "trimmed v =
     (case v of
        PStr s \<Rightarrow> if strip s = [] then None else Some (take 255 (strip s))
      | _ \<Rightarrow> None)"

text \<open>A value that is not one of the two infinite floats, on which \<^verbatim>\<open>int\<close> raises an
  \<^verbatim>\<open>OverflowError\<close> that \<^verbatim>\<open>parse_int\<close> does not catch.\<close>

definition not_infinite :: "pyval \<Rightarrow> bool" where
  "not_infinite v = (v \<noteq> PFloat PosInf \<and> v \<noteq> PFloat NegInf)"

section \<open>The database the program makes\<close>

text \<open>
  The database after the first start, \<^verbatim>\<open>init_db\<close> on the empty file, and the one
  after the creation request of the spec's example has been served on it.
\<close>

definition fresh_db :: database where
  "fresh_db = fst (init_db empty_db)"

definition kind_of_blue :: pyval where
  "kind_of_blue =
     PDict [(''title'', PStr ''Kind of Blue''), (''artist_name'', PStr ''Miles Davis''),
            (''genre'', PStr ''Jazz''), (''year'', PInt 1959), (''price'', PFloat (Finite 25)),
            (''purchase_date'', PStr ''2020-01-01'')]"

definition one_record_db :: database where
  "one_record_db = fst (api_add_record no_conv fresh_db kind_of_blue)"

text \<open>
  A store entered through \<^verbatim>\<open>api_create_store\<close>, which calls
  \<^verbatim>\<open>find_or_create_store\<close>, and a creation request that names it.
\<close>

definition vinyl_shop_db :: database where
  "vinyl_shop_db = fst (find_or_create_store one_record_db (Some ''Vinyl Shop'') None None)"

definition blue_train :: pyval where
  "blue_train =
     PDict [(''title'', PStr ''Blue Train''), (''year'', PInt 1958), (''price'', PFloat (Finite 20)),
            (''store_id'', PInt 1)]"

section \<open>The date parser\<close>

subsection \<open>Digits\<close>



lemma is_digit_digit_char: "n < 10 \<Longrightarrow> is_digit (digit_char n)"
  by (simp add: is_digit_def digit_char_def)

lemma digit_val_digit_char: "n < 10 \<Longrightarrow> digit_val (digit_char n) = n"
  by (simp add: digit_val_def digit_char_def)

lemma digit_char_eq_iff: "n < 10 \<Longrightarrow> k < 10 \<Longrightarrow> digit_char n = digit_char k \<longleftrightarrow> n = k"
  using digit_val_digit_char by metis

lemma chr_digits:
  "CHR ''0'' = digit_char 0" "CHR ''1'' = digit_char 1" "CHR ''3'' = digit_char 3"
  by (simp_all add: digit_char_def char_of_def bit_Suc_0_iff)

lemma not_digit: "\<not> is_digit CHR ''-''" "\<not> is_digit CHR '' ''"
  by (simp_all add: is_digit_def)




lemma year_digits:
  fixes y :: nat
  assumes "y \<le> 9999"
  shows "y div 1000 < 10" "y div 100 mod 10 < 10" "y div 10 mod 10 < 10" "y mod 10 < 10"
    "1000 * (y div 1000) + 100 * (y div 100 mod 10) + 10 * (y div 10 mod 10) + y mod 10 = y"
proof -
  show "y div 1000 < 10" using assms by (simp add: less_mult_imp_div_less)
  show "y div 100 mod 10 < 10" "y div 10 mod 10 < 10" "y mod 10 < 10" by simp_all
  have a: "y div 100 = 10 * (y div 1000) + y div 100 mod 10"
    using div_mult_mod_eq[of "y div 100" 10] by (simp add: div_mult2_eq[symmetric])
  have b: "y div 10 = 10 * (y div 100) + y div 10 mod 10"
    using div_mult_mod_eq[of "y div 10" 10] by (simp add: div_mult2_eq[symmetric])
  have c: "y = 10 * (y div 10) + y mod 10" by simp
  show "1000 * (y div 1000) + 100 * (y div 100 mod 10) + 10 * (y div 10 mod 10) + y mod 10 = y"
    using a b c by linarith
qed

lemma match_year_complete:
  assumes "y \<le> 9999"
  shows "match_year (pad4 y @ r) = Some (y, r)"
  using year_digits[OF assms]
  by (simp add: pad4_def is_digit_digit_char digit_val_digit_char)

subsection \<open>The three fields of a date\<close>


lemma match_month_complete:
  assumes "1 \<le> m" "m \<le> 12" "t \<in> set (month_texts m)"
  shows "match_month (t @ CHR ''-'' # r) = Some (m, CHR ''-'' # r)"
proof (cases "m < 10")
  case True
  then have d: "m div 10 = 0" "m mod 10 = m" by simp_all
  from assms(3) True consider "t = [CHR ''0'', digit_char m]" | "t = [digit_char m]"
    by (auto simp add: month_texts_def pad2_def d chr_digits)
  then show ?thesis
  proof cases
    case 1
    with True assms(1) show ?thesis
      by (simp add: is_digit_digit_char digit_val_digit_char)
  next
    case 2
    with True assms(1) show ?thesis
      by (simp add: is_digit_digit_char digit_val_digit_char not_digit)
  qed
next
  case False
  with assms(2) have d: "m div 10 = 1" "m mod 10 \<le> 2" "10 + m mod 10 = m" "m mod 10 < 10"
    by (simp_all add: div_nat_eqI mod_eq_dvd_iff_nat le_mod_geq) 
  from assms(3) False have "t = [CHR ''1'', digit_char (m mod 10)]"
    by (simp add: month_texts_def pad2_def d chr_digits)
  with d show ?thesis
    by (simp add: is_digit_digit_char digit_val_digit_char)
qed


lemma match_day_complete:
  assumes "1 \<le> d" "d \<le> 31" "t \<in> set (day_texts d)"
  shows "match_day t = Some d"
proof (cases "d < 10")
  case True
  then have dd: "d div 10 = 0" "d mod 10 = d" by simp_all
  from assms(3) True consider "t = [CHR ''0'', digit_char d]" | "t = [digit_char d]"
    | "t = [CHR '' '', digit_char d]"
    by (auto simp add: day_texts_def pad2_def dd chr_digits)
  then show ?thesis
  proof cases
    case 1
    with True assms(1) show ?thesis
      by (simp add: is_digit_digit_char digit_val_digit_char chr_digits digit_char_eq_iff)
  next
    case 2
    with True assms(1) show ?thesis
      by (simp add: is_digit_digit_char digit_val_digit_char)
  next
    case 3
    with True assms(1) show ?thesis
      by (simp add: is_digit_digit_char digit_val_digit_char not_digit)
  qed
next
  case False
  then have t: "t = [digit_char (d div 10), digit_char (d mod 10)]"
    using assms(3) by (simp add: day_texts_def pad2_def)
  have lt: "d mod 10 < 10" by simp
  show ?thesis
  proof (cases "30 \<le> d")
    case True
    with assms(2) have "d div 10 = 3" "d mod 10 \<le> 1" "30 + d mod 10 = d"
      by (simp_all add: div_nat_eqI mod_eq_dvd_iff_nat le_mod_geq)
    with t lt show ?thesis
      by (simp add: is_digit_digit_char digit_val_digit_char chr_digits[symmetric])
  next
    case F: False
    with False have q: "1 \<le> d div 10" "d div 10 \<le> 2" "d div 10 < 10" "d div 10 \<noteq> 3"
      by (simp_all add: less_mult_imp_div_less div_le_mono le_div_geq)
    have "10 * (d div 10) + d mod 10 = d" by simp
    with t lt q show ?thesis
      by (simp add: is_digit_digit_char digit_val_digit_char chr_digits digit_char_eq_iff)
  qed
qed

subsection \<open>What the date parser accepts\<close>

lemma days_in_month_le: "days_in_month y m \<le> 31"
  by (simp add: days_in_month_def)

lemma strptime_ymd_complete:
  assumes "is_date y m d" "s \<in> set (date_texts y m d)"
  shows "strptime_ymd s"
proof -
  from assms(2) obtain mt dt where mt: "mt \<in> set (month_texts m)" and dt: "dt \<in> set (day_texts d)"
    and s: "s = pad4 y @ CHR ''-'' # mt @ CHR ''-'' # dt"
    by (auto simp add: date_texts_def)
  from assms(1) have b: "1 \<le> y" "y \<le> 9999" "1 \<le> m" "m \<le> 12" "1 \<le> d" "d \<le> days_in_month y m"
    by (simp_all add: is_date_def)
  have d31: "d \<le> 31" using b(6) days_in_month_le[of y m] by linarith
  have 1: "match_year s = Some (y, CHR ''-'' # mt @ CHR ''-'' # dt)"
    unfolding s by (rule match_year_complete[OF b(2)])
  have 2: "match_month (mt @ CHR ''-'' # dt) = Some (m, CHR ''-'' # dt)"
    by (rule match_month_complete[OF b(3,4) mt])
  have 3: "match_day dt = Some d"
    by (rule match_day_complete[OF b(5) d31 dt])
  show ?thesis
    using b(1,6) by (simp add: strptime_ymd_def 1 2 3)
qed





text \<open>In particular every calendar date in the zero-padded form is returned.\<close>

lemma padded_date_accepted:
  assumes "is_date y m d"
  shows "parse_date_yyyy_mm_dd (PStr (pad4 y @ ''-'' @ pad2 m @ ''-'' @ pad2 d))
         = Inr (Some (pad4 y @ ''-'' @ pad2 m @ ''-'' @ pad2 d))"
proof -
  have "pad4 y @ ''-'' @ pad2 m @ ''-'' @ pad2 d \<in> set (date_texts y m d)"
    by (simp add: date_texts_def month_texts_def day_texts_def)
  with assms have "strptime_ymd (pad4 y @ ''-'' @ pad2 m @ ''-'' @ pad2 d)"
    by (rule strptime_ymd_complete)
  then show ?thesis by (simp add: parse_date_yyyy_mm_dd_def pad4_def)
qed

section \<open>Schema initialisation\<close>

text \<open>On any database \<^verbatim>\<open>init_db\<close> leaves the link table as it finds it.\<close>

lemma exec_stmt_keeps_links:
  assumes "s \<noteq> CreateTable TRecordStores" "exec_stmt d s = Inr d'"
  shows "recordStores d' = recordStores d"
proof (cases s)
  case (CreateTable t)
  with assms show ?thesis by (cases t) (auto split: if_splits)
next
  case (CreateIndex n t)
  with assms show ?thesis by (auto split: if_splits)
qed

lemma executescript_keeps_links:
  "CreateTable TRecordStores \<notin> set ss \<Longrightarrow>
   recordStores (fst (executescript d ss)) = recordStores d"
proof (induction ss arbitrary: d)
  case Nil
  then show ?case by simp
next
  case (Cons s ss)
  show ?case
  proof (cases "exec_stmt d s")
    case (Inl e)
    then show ?thesis by simp
  next
    case (Inr d')
    with Cons.prems have "recordStores d' = recordStores d"
      using exec_stmt_keeps_links[of s d d'] by auto
    with Inr Cons show ?thesis by simp
  qed
qed

lemma executescripts_keeps_links:
  "CreateTable TRecordStores \<notin> set (concat ss) \<Longrightarrow>
   recordStores (fst (executescripts d ss)) = recordStores d"
proof (induction ss arbitrary: d)
  case Nil
  then show ?case by simp
next
  case (Cons s ss)
  obtain d' r where e: "executescript d s = (d', r)" by (cases "executescript d s")
  have "recordStores d' = recordStores d"
    using executescript_keeps_links[of s d] Cons.prems e by simp
  with e Cons show ?case by (cases r) simp_all
qed

lemma init_db_never_creates_recordStores:
  "recordStores (fst (init_db d)) = recordStores d"
  unfolding init_db_def
  by (rule executescripts_keeps_links) (simp add: SCHEMA_def)

text \<open>
  Claim C1 says that \<^verbatim>\<open>init_db\<close> on an empty database creates the four entity
  tables and the \<^verbatim>\<open>recordStores\<close> link table.  Evaluated on the empty database,
  \<^verbatim>\<open>init_db\<close> returns without error and leaves the four entity tables and the six
  indexes of \<^verbatim>\<open>SCHEMA\<close>, and no \<^verbatim>\<open>recordStores\<close> table: no statement of
  \<^verbatim>\<open>SCHEMA\<close> creates it.
\<close>

theorem init_db_empty_db:
  "init_db empty_db =
     (\<lparr>Artists = Some [], Genres = Some [], Records = Some [], Stores = Some [],
       recordStores = None,
       seq_Artists = 0, seq_Genres = 0, seq_Records = 0, seq_Stores = 0,
       indexes = [''idx_artists_name'', ''idx_records_artist'', ''idx_records_genre'',
                  ''idx_records_purchase_date'', ''idx_records_year'', ''idx_stores_name'']\<rparr>,
      Inr ())"
  by (simp add: init_db_def SCHEMA_def empty_db_def)

text \<open>A second call on that database changes nothing, and the first statement of
  \<^verbatim>\<open>delete_record_db\<close> that names the link table fails there.\<close>

lemma init_db_again:
  "init_db (fst (init_db empty_db)) = (fst (init_db empty_db), Inr ())"
  by (simp add: init_db_def SCHEMA_def empty_db_def)

lemma delete_after_init_db:
  "api_delete_record (fst (init_db empty_db)) 1 =
     (fst (init_db empty_db), InternalServerError OperationalError)"
  by (simp add: init_db_def SCHEMA_def empty_db_def api_delete_record_def delete_record_db_def
      fits_int64_def)

text \<open>A statement that has run has no further effect, whatever runs after it; so a
  second \<^verbatim>\<open>init_db\<close> changes nothing.\<close>

lemma exec_stmt_done_iff:
  "exec_stmt d s = Inr d \<longleftrightarrow>
     (case s of CreateTable t \<Rightarrow> has_table d t
      | CreateIndex n t \<Rightarrow> has_table d t \<and> n \<in> set (indexes d))"
proof (cases s)
  case (CreateTable t)
  have "\<not> has_table d t \<Longrightarrow> has_table (create_table d t) t" by (cases t) simp_all
  then have "\<not> has_table d t \<Longrightarrow> create_table d t \<noteq> d" by metis
  with CreateTable show ?thesis by auto
next
  case (CreateIndex n t)
  have "indexes (d\<lparr>indexes := indexes d @ [n]\<rparr>) \<noteq> indexes d" by simp
  then have "d\<lparr>indexes := indexes d @ [n]\<rparr> \<noteq> d" by metis
  with CreateIndex show ?thesis by auto
qed

lemma exec_stmt_has_table:
  assumes "exec_stmt d s = Inr d'" "has_table d t"
  shows "has_table d' t"
proof (cases s)
  case (CreateTable u)
  with assms show ?thesis by (cases u; cases t) (auto split: if_splits)
next
  case (CreateIndex n u)
  with assms show ?thesis by (cases t) (auto split: if_splits)
qed

lemma exec_stmt_indexes:
  assumes "exec_stmt d s = Inr d'" "n \<in> set (indexes d)"
  shows "n \<in> set (indexes d')"
proof (cases s)
  case (CreateTable u)
  with assms show ?thesis by (cases u) (auto split: if_splits)
next
  case (CreateIndex m u)
  with assms show ?thesis by (auto split: if_splits)
qed

lemma exec_stmt_stable:
  assumes "exec_stmt d s = Inr d" "exec_stmt d s' = Inr d'"
  shows "exec_stmt d' s = Inr d'"
  using assms exec_stmt_has_table[OF assms(2)] exec_stmt_indexes[OF assms(2)]
  unfolding exec_stmt_done_iff by (cases s) auto

lemma exec_stmt_done_after:
  assumes "exec_stmt d s = Inr d'"
  shows "exec_stmt d' s = Inr d'"
proof (cases s)
  case (CreateTable t)
  have "has_table (create_table d t) t" by (cases t) simp_all
  with CreateTable assms show ?thesis by (auto split: if_splits)
next
  case (CreateIndex n t)
  with assms show ?thesis by (cases t) (auto split: if_splits)
qed

lemma executescript_stable:
  "executescript d ss = (d', Inr ()) \<Longrightarrow> exec_stmt d s = Inr d \<Longrightarrow> exec_stmt d' s = Inr d'"
proof (induction ss arbitrary: d)
  case Nil
  then show ?case by simp
next
  case (Cons x xs)
  from Cons.prems(1) obtain d1 where x: "exec_stmt d x = Inr d1"
    and r: "executescript d1 xs = (d', Inr ())"
    by (cases "exec_stmt d x") simp_all
  from exec_stmt_stable[OF Cons.prems(2) x] Cons.IH[OF r] show ?case by blast
qed

lemma executescript_done:
  "executescript d ss = (d', Inr ()) \<Longrightarrow> s \<in> set ss \<Longrightarrow> exec_stmt d' s = Inr d'"
proof (induction ss arbitrary: d)
  case Nil
  then show ?case by simp
next
  case (Cons x xs)
  from Cons.prems(1) obtain d1 where x: "exec_stmt d x = Inr d1"
    and r: "executescript d1 xs = (d', Inr ())"
    by (cases "exec_stmt d x") simp_all
  show ?case
  proof (cases "s = x")
    case True
    with executescript_stable[OF r exec_stmt_done_after[OF x]] show ?thesis by simp
  next
    case False
    with Cons.prems(2) Cons.IH[OF r] show ?thesis by simp
  qed
qed

lemma executescript_all_done:
  "(\<And>s. s \<in> set ss \<Longrightarrow> exec_stmt d s = Inr d) \<Longrightarrow> executescript d ss = (d, Inr ())"
  by (induction ss) simp_all

lemma executescripts_stable:
  "executescripts d ss = (d', Inr ()) \<Longrightarrow> exec_stmt d s = Inr d \<Longrightarrow> exec_stmt d' s = Inr d'"
proof (induction ss arbitrary: d)
  case Nil
  then show ?case by simp
next
  case (Cons x xs)
  from Cons.prems(1) obtain d1 where x: "executescript d x = (d1, Inr ())"
    and r: "executescripts d1 xs = (d', Inr ())"
    by (cases "executescript d x") (auto split: sum.splits)
  from executescript_stable[OF x Cons.prems(2)] Cons.IH[OF r] show ?case by blast
qed

lemma executescripts_done:
  "executescripts d ss = (d', Inr ()) \<Longrightarrow> s \<in> set (concat ss) \<Longrightarrow> exec_stmt d' s = Inr d'"
proof (induction ss arbitrary: d)
  case Nil
  then show ?case by simp
next
  case (Cons x xs)
  from Cons.prems(1) obtain d1 where x: "executescript d x = (d1, Inr ())"
    and r: "executescripts d1 xs = (d', Inr ())"
    by (cases "executescript d x") (auto split: sum.splits)
  show ?case
  proof (cases "s \<in> set x")
    case True
    from executescripts_stable[OF r executescript_done[OF x True]] show ?thesis .
  next
    case False
    with Cons.prems(2) Cons.IH[OF r] show ?thesis by simp
  qed
qed

lemma executescripts_all_done:
  "(\<And>s. s \<in> set (concat ss) \<Longrightarrow> exec_stmt d s = Inr d) \<Longrightarrow> executescripts d ss = (d, Inr ())"
proof (induction ss)
  case Nil
  then show ?case by simp
next
  case (Cons x xs)
  have "executescript d x = (d, Inr ())"
    by (rule executescript_all_done) (simp add: Cons.prems)
  moreover have "executescripts d xs = (d, Inr ())"
    by (rule Cons.IH) (simp add: Cons.prems)
  ultimately show ?case by simp
qed

lemma init_db_idempotent:
  assumes "init_db d = (d', Inr ())"
  shows "init_db d' = (d', Inr ())"
  unfolding init_db_def
  by (rule executescripts_all_done) (rule executescripts_done[OF assms[unfolded init_db_def]])

text \<open>\<^verbatim>\<open>init_db\<close> raises no error on any database of the model: each index follows
  the table it is on.\<close>

lemma executescript_append:
  "executescript d (xs @ ys) =
     (case executescript d xs of
        (d', Inl e) \<Rightarrow> (d', Inl e)
      | (d', Inr u) \<Rightarrow> executescript d' ys)"
  by (induction xs arbitrary: d) (auto split: sum.splits)

lemma indexes_run:
  "has_table d t \<Longrightarrow> \<exists>d'. executescript d (map (\<lambda>n. CreateIndex n t) ns) = (d', Inr ())"
proof (induction ns arbitrary: d)
  case Nil
  then show ?case by simp
next
  case (Cons n ns)
  then obtain d1 where 1: "exec_stmt d (CreateIndex n t) = Inr d1"
    by (cases "n \<in> set (indexes d)") auto
  from exec_stmt_has_table[OF 1 Cons.prems] Cons.IH obtain d' where
    "executescript d1 (map (\<lambda>n. CreateIndex n t) ns) = (d', Inr ())" by blast
  with 1 show ?case by simp
qed

lemma table_indexes_run:
  "\<exists>d'. executescript d (CreateTable t # map (\<lambda>n. CreateIndex n t) ns) = (d', Inr ())"
proof -
  obtain d1 where 1: "exec_stmt d (CreateTable t) = Inr d1" by simp
  have "has_table d1 t" using 1 by (cases t) (auto split: if_splits)
  from indexes_run[OF this] obtain d' where
    "executescript d1 (map (\<lambda>n. CreateIndex n t) ns) = (d', Inr ())" by blast
  with 1 show ?thesis by simp
qed

lemma init_db_returns: "\<exists>d'. init_db d = (d', Inr ())"
proof -
  define s0 where "s0 = CreateTable TArtists # map (\<lambda>n. CreateIndex n TArtists) [''idx_artists_name'']"
  define s1 where "s1 = CreateTable TGenres # map (\<lambda>n. CreateIndex n TGenres) []"
  define s2 where "s2 = CreateTable TRecords # map (\<lambda>n. CreateIndex n TRecords)
      [''idx_records_artist'', ''idx_records_genre'', ''idx_records_purchase_date'',
       ''idx_records_year'']"
  define s3 where "s3 = CreateTable TStores # map (\<lambda>n. CreateIndex n TStores) [''idx_stores_name'']"
  have eq: "SCHEMA = [s0, s1 @ s2 @ s3]"
    by (simp add: SCHEMA_def s0_def s1_def s2_def s3_def)
  obtain d1 where 1: "executescript d s0 = (d1, Inr ())"
    unfolding s0_def using table_indexes_run by blast
  obtain d2 where 2: "executescript d1 s1 = (d2, Inr ())"
    unfolding s1_def using table_indexes_run by blast
  obtain d3 where 3: "executescript d2 s2 = (d3, Inr ())"
    unfolding s2_def using table_indexes_run by blast
  obtain d4 where 4: "executescript d3 s3 = (d4, Inr ())"
    unfolding s3_def using table_indexes_run by blast
  have "executescript d1 (s1 @ s2 @ s3) = (d4, Inr ())"
    by (simp add: executescript_append 2 3 4)
  with 1 have "executescripts d [s0, s1 @ s2 @ s3] = (d4, Inr ())" by simp
  then show ?thesis unfolding init_db_def eq by blast
qed

section \<open>Deleting records and genres\<close>

lemma filter_id_unchanged: "x \<notin> f ` set xs \<Longrightarrow> filter (\<lambda>r. f r \<noteq> x) xs = xs"
  by (induction xs) auto

lemma find_None_notin: "x \<notin> f ` set xs \<Longrightarrow> find (\<lambda>r. f r = x) xs = None"
  by (induction xs) auto

text \<open>
  Where the Records and link tables exist: for an id in the 64-bit range that no record and
  no link row has, the delete operation raises no error, the endpoint answers 204, and
  the database is left as it was.
\<close>

lemma delete_record_db_missing_id:
  assumes "Records d = Some rs" and "recordStores d = Some ls" and "fits_int64 rid"
    and "rid \<notin> R_record_id ` set rs" and "rid \<notin> RS_record_id ` set ls"
  shows "delete_record_db d rid = (d, Inr ()) \<and> api_delete_record d rid = (d, NoContent)"
proof -
  have "d\<lparr>recordStores := Some ls, Records := Some rs\<rparr> = d" using assms(1,2) by simp
  then have "delete_record_db d rid = (d, Inr ())"
    using assms
    by (simp add: delete_record_db_def filter_id_unchanged find_None_notin truthy_int_def)
  then show ?thesis by (simp add: api_delete_record_def)
qed

text \<open>
  Claim C7: for a genre that a record still references, the genre delete endpoint answers
  with the client error 400 and leaves the database unchanged, and the genre list still
  holds the genre.
\<close>

theorem api_delete_genre_rejects:
  assumes "Genres d = Some gs" and "g \<in> set gs" and "G_genre_id g = gid"
    and "Records d = Some rs" and "r \<in> set rs" and "R_genre_id r = Some gid"
  shows "\<exists>msg rows. api_delete_genre d gid = (d, BadRequest msg) \<and>
           api_get_genres (fst (api_delete_genre d gid)) = OK rows \<and> g \<in> set rows"
proof -
  have "filter (\<lambda>r. R_genre_id r = Some gid) rs \<noteq> []"
    using assms(5,6) by (auto simp add: filter_empty_conv)
  then have "api_delete_genre d gid = (d, BadRequest ''genre in use by records, cannot delete'')"
    using assms(4) by (simp add: api_delete_genre_def)
  moreover have "api_get_genres d = OK (sort_key G_name gs)"
    using assms(1) by (simp add: api_get_genres_def get_genres_db_def)
  ultimately show ?thesis using assms(2) by simp
qed

theorem api_delete_genre_rejects_witness:
  "\<exists>msg rows. api_delete_genre sample_db 1 = (sample_db, BadRequest msg) \<and>
     api_get_genres (fst (api_delete_genre sample_db 1)) = OK rows \<and>
     \<lparr>G_genre_id = 1, G_name = ''Jazz''\<rparr> \<in> set rows"
  by (rule api_delete_genre_rejects[where gs = "the (Genres sample_db)"
        and rs = "the (Records sample_db)" and r = "hd (the (Records sample_db))"])
     (simp_all add: sample_db_def)

lemma find_distinct_key:
  "distinct (map f xs) \<Longrightarrow> x \<in> set xs \<Longrightarrow> find (\<lambda>y. f y = f x) xs = Some x"
proof (induction xs)
  case Nil
  then show ?case by simp
next
  case (Cons y ys)
  then show ?case by (cases "y = x") (auto simp add: image_iff)
qed

lemma distinct_key_eq:
  "distinct (map f xs) \<Longrightarrow> x \<in> set xs \<Longrightarrow> y \<in> set xs \<Longrightarrow> f y = f x \<longleftrightarrow> y = x"
  by (metis distinct_map inj_onD)

text \<open>
  Where the Records, link and Artists tables exist, the key of Records is unique and the
  ids are in the 64-bit range and positive: record deletion removes the record's link
  rows, then the record, then the artist of the record only if no record references it
  any more.
\<close>

lemma delete_record_db_cascade:
  assumes tables: "Records d = Some rs" "recordStores d = Some ls" "Artists d = Some as"
    and keys: "distinct (map R_record_id rs)"
    and r: "r \<in> set rs" "R_record_id r = rid" "R_artist_id r = Some a" "0 < a"
    and fits: "fits_int64 rid"
  shows "\<exists>d'. delete_record_db d rid = (d', Inr ()) \<and>
           recordStores d' = Some (filter (\<lambda>l. RS_record_id l \<noteq> rid) ls) \<and>
           Records d' = Some (filter (\<lambda>x. x \<noteq> r) rs) \<and>
           Artists d' = Some (if \<exists>x\<in>set rs. x \<noteq> r \<and> R_artist_id x = Some a then as
                              else filter (\<lambda>x. A_artist_id x \<noteq> a) as) \<and>
           Genres d' = Genres d \<and> Stores d' = Stores d"
proof -
  have f: "find (\<lambda>x. R_record_id x = rid) rs = Some r"
    using find_distinct_key[OF keys r(1)] r(2) by simp
  have flt: "filter (\<lambda>x. R_record_id x \<noteq> rid) rs = filter (\<lambda>x. x \<noteq> r) rs"
    using distinct_key_eq[OF keys r(1)] r(2) by (intro filter_cong) auto
  have cnt: "filter (\<lambda>x. R_artist_id x = Some a) (filter (\<lambda>x. x \<noteq> r) rs) = [] \<longleftrightarrow>
             \<not> (\<exists>x\<in>set rs. x \<noteq> r \<and> R_artist_id x = Some a)"
    by (auto simp add: filter_empty_conv)
  show ?thesis
  proof (cases "\<exists>x\<in>set rs. x \<noteq> r \<and> R_artist_id x = Some a")
    case True
    with cnt have "filter (\<lambda>x. R_artist_id x = Some a) (filter (\<lambda>x. x \<noteq> r) rs) \<noteq> []" by simp
    with True show ?thesis
      using tables r(3,4) fits by (simp add: delete_record_db_def f flt truthy_int_def)
  next
    case False
    with cnt have "filter (\<lambda>x. R_artist_id x = Some a) (filter (\<lambda>x. x \<noteq> r) rs) = []" by simp
    with False show ?thesis
      using tables r(3,4) fits by (auto simp add: delete_record_db_def f flt truthy_int_def)
  qed
qed


lemma delete_record_db_cascade_sample:
  "(\<exists>d'. delete_record_db sample_db 2 = (d', Inr ()) \<and>
      recordStores d' = recordStores sample_db \<and>
      Records d' = Some [hd (the (Records sample_db)), last (the (Records sample_db))] \<and>
      Artists d' = Some [hd (the (Artists sample_db))]) \<and>
   (\<exists>d'. delete_record_db sample_db 1 = (d', Inr ()) \<and>
      recordStores d' = Some [] \<and>
      Records d' = Some (tl (the (Records sample_db))) \<and>
      Artists d' = Artists sample_db)"
proof -
  obtain d2 where "delete_record_db sample_db 2 = (d2, Inr ())"
    "recordStores d2 = recordStores sample_db"
    "Records d2 = Some [hd (the (Records sample_db)), last (the (Records sample_db))]"
    "Artists d2 = Some [hd (the (Artists sample_db))]"
    using delete_record_db_cascade[of sample_db "the (Records sample_db)"
          "the (recordStores sample_db)" "the (Artists sample_db)"
          "the (Records sample_db) ! 1" 2 2]
    by (auto simp add: sample_db_def fits_int64_def)
  moreover obtain d1 where "delete_record_db sample_db 1 = (d1, Inr ())"
    "recordStores d1 = Some []"
    "Records d1 = Some (tl (the (Records sample_db)))"
    "Artists d1 = Artists sample_db"
    using delete_record_db_cascade[of sample_db "the (Records sample_db)"
          "the (recordStores sample_db)" "the (Artists sample_db)"
          "the (Records sample_db) ! 0" 1 1]
    by (auto simp add: sample_db_def fits_int64_def)
  ultimately show ?thesis by blast
qed

section \<open>Find-or-create\<close>

lemma next_rowid_free: "rowid_free seq ids \<Longrightarrow> next_rowid seq ids = Inr (fold max ids seq + 1)"
  by (simp add: rowid_free_def next_rowid_def Let_def)







text \<open>Without a name the artist and store functions are no-ops; the genre function
  strips the name before testing it.\<close>

lemma find_or_create_no_name:
  "find_or_create_artist d None c = (d, Inr None)"
  "find_or_create_store d None st ad = (d, Inr None)"
  "find_or_create_genre d None = (d, Inl AttributeError)"
  by (simp_all add: find_or_create_artist_def find_or_create_store_def find_or_create_genre_def
      or_empty_def strip_def)




section \<open>The record endpoints\<close>

subsection \<open>Parsing the payload\<close>

lemma sanitize_text_like: "text_like v \<Longrightarrow> sanitize_text v 255 = Inr (trimmed v)"
  by (cases v) (auto simp add: text_like_def sanitize_text_def trimmed_def Let_def strip_def)

lemma truthy_trimmed: "truthy_str (trimmed v) \<longleftrightarrow> trimmed v \<noteq> None"
  by (cases v) (auto simp add: trimmed_def truthy_str_def)

lemma parse_int_not_infinite: "not_infinite v \<Longrightarrow> \<exists>r. parse_int B v lo hi = Inr r"
proof (cases v)
  case (PFloat f)
  assume "not_infinite v"
  with PFloat show ?thesis
    by (cases f) (auto simp add: parse_int_def not_infinite_def split: option.splits)
qed (auto simp add: parse_int_def split: option.splits sum.splits exn.splits)



lemma fold_max_ge: "x \<in> set ids \<Longrightarrow> x \<le> fold max ids (seq::int)"
proof (induction ids arbitrary: seq)
  case Nil
  then show ?case by simp
next
  case (Cons y ys)
  have mono: "s \<le> fold max ys s" for s :: int
    by (induction ys arbitrary: s) (auto intro: order_trans[OF max.cobounded2])
  from Cons show ?case
  proof (cases "x = y")
    case True
    have "x \<le> max y seq" using True by simp
    also have "\<dots> \<le> fold max ys (max y seq)" by (rule mono)
    finally show ?thesis by simp
  next
    case False
    with Cons show ?thesis by simp
  qed
qed

lemma fresh_rowid: "fold max ids (seq::int) + 1 \<notin> set ids"
  using fold_max_ge[of "fold max ids seq + 1" ids seq] by auto

subsection \<open>The two find-or-create calls of a record endpoint\<close>

lemma strip_nonempty_head:
  assumes "strip s \<noteq> []"
  shows "\<exists>c cs. strip s = c # cs \<and> \<not> is_space c"
proof -
  let ?t = "dropWhile is_space s"
  have ne: "?t \<noteq> []"
  proof
    assume e: "?t = []"
    have "strip s = []" unfolding strip_def e by simp
    with assms show False by simp
  qed
  then obtain c cs where t: "?t = c # cs" by (cases ?t) auto
  have c: "\<not> is_space c" using hd_dropWhile[OF ne] t by simp
  have "rev (dropWhile is_space (rev ?t)) = c # rev (dropWhile is_space (rev cs))"
  proof -
    have "dropWhile is_space (rev cs @ [c]) = dropWhile is_space (rev cs) @ [c]"
      using c by (induction "rev cs" arbitrary: cs) (auto simp add: dropWhile_append)
    then show ?thesis by (simp add: t)
  qed
  with c show ?thesis by (auto simp add: strip_def)
qed

lemma strip_cons_nonspace: "\<not> is_space c \<Longrightarrow> strip (c # cs) \<noteq> []"
proof -
  assume c: "\<not> is_space c"
  have "dropWhile is_space (rev cs @ [c]) \<noteq> []"
    using c by (simp add: dropWhile_append)
  with c show ?thesis by (simp add: strip_def)
qed

lemma strip_trimmed: "trimmed v = Some t \<Longrightarrow> strip t \<noteq> []"
proof (cases v)
  case (PStr s)
  assume a: "trimmed v = Some t"
  with PStr have ne: "strip s \<noteq> []" and t: "t = take 255 (strip s)"
    by (auto simp add: trimmed_def split: if_splits)
  from strip_nonempty_head[OF ne] obtain c cs where "strip s = c # cs" "\<not> is_space c" by blast
  then show ?thesis using strip_cons_nonspace[of c "take 254 cs"] by (simp add: t)
qed (auto simp add: trimmed_def)

lemma find_Some_mem: "find P xs = Some x \<Longrightarrow> x \<in> set xs \<and> P x"
  by (induction xs) (auto split: if_splits)

lemma find_None_all: "find P xs = None \<Longrightarrow> x \<in> set xs \<Longrightarrow> \<not> P x"
  by (induction xs) (auto split: if_splits)

lemma find_or_create_artist_result:
  assumes "Artists d = Some as" "rowid_free (seq_Artists d) (map A_artist_id as)" "strip t \<noteq> []"
  shows "\<exists>as' q a. find_or_create_artist d (Some t) c =
            (d\<lparr>Artists := Some as', seq_Artists := q\<rparr>, Inr (Some (A_artist_id a))) \<and>
          a \<in> set as' \<and> A_name a = strip t \<and>
          (distinct (map A_artist_id as) \<longrightarrow> distinct (map A_artist_id as')) \<and>
          (distinct (map A_name as) \<longrightarrow> distinct (map A_name as'))"
proof (cases "find (\<lambda>a. A_name a = strip t) as")
  case None
  let ?i = "fold max (map A_artist_id as) (seq_Artists d) + 1"
  let ?a = "\<lparr>A_artist_id = ?i, A_name = strip t, A_country = c\<rparr>"
  have "find_or_create_artist d (Some t) c =
          (d\<lparr>Artists := Some (as @ [?a]), seq_Artists := ?i\<rparr>, Inr (Some (A_artist_id ?a)))"
    using None assms by (simp add: find_or_create_artist_def or_empty_def next_rowid_free)
  moreover have "distinct (map A_artist_id as) \<longrightarrow> distinct (map A_artist_id (as @ [?a]))"
    using fresh_rowid[of "map A_artist_id as" "seq_Artists d"] by simp
  moreover have "strip t \<notin> A_name ` set as"
  proof
    assume "strip t \<in> A_name ` set as"
    then obtain x where x: "x \<in> set as" "A_name x = strip t" by auto
    from find_None_all[OF None x(1)] x(2) show False by simp
  qed
  then have "distinct (map A_name as) \<longrightarrow> distinct (map A_name (as @ [?a]))"
    by simp
  ultimately show ?thesis by (intro exI[of _ "as @ [?a]"] exI[of _ ?i] exI[of _ ?a]) simp
next
  case (Some a)
  have "d\<lparr>Artists := Some as, seq_Artists := seq_Artists d\<rparr> = d" using assms(1) by simp
  then have "find_or_create_artist d (Some t) c =
          (d\<lparr>Artists := Some as, seq_Artists := seq_Artists d\<rparr>, Inr (Some (A_artist_id a)))"
    using Some assms by (simp add: find_or_create_artist_def or_empty_def)
  with find_Some_mem[OF Some] show ?thesis by blast
qed

lemma find_or_create_genre_result:
  assumes "Genres d = Some gs" "rowid_free (seq_Genres d) (map G_genre_id gs)" "strip t \<noteq> []"
  shows "\<exists>gs' q g. find_or_create_genre d (Some t) =
            (d\<lparr>Genres := Some gs', seq_Genres := q\<rparr>, Inr (Some (G_genre_id g))) \<and>
          g \<in> set gs' \<and> G_name g = strip t \<and>
          (distinct (map G_genre_id gs) \<longrightarrow> distinct (map G_genre_id gs')) \<and>
          (distinct (map G_name gs) \<longrightarrow> distinct (map G_name gs'))"
proof (cases "find (\<lambda>g. G_name g = strip t) gs")
  case None
  let ?i = "fold max (map G_genre_id gs) (seq_Genres d) + 1"
  let ?g = "\<lparr>G_genre_id = ?i, G_name = strip t\<rparr>"
  have "find_or_create_genre d (Some t) =
          (d\<lparr>Genres := Some (gs @ [?g]), seq_Genres := ?i\<rparr>, Inr (Some (G_genre_id ?g)))"
    using None assms by (simp add: find_or_create_genre_def next_rowid_free)
  moreover have "distinct (map G_genre_id gs) \<longrightarrow> distinct (map G_genre_id (gs @ [?g]))"
    using fresh_rowid[of "map G_genre_id gs" "seq_Genres d"] by simp
  moreover have "strip t \<notin> G_name ` set gs"
  proof
    assume "strip t \<in> G_name ` set gs"
    then obtain x where x: "x \<in> set gs" "G_name x = strip t" by auto
    from find_None_all[OF None x(1)] x(2) show False by simp
  qed
  then have "distinct (map G_name gs) \<longrightarrow> distinct (map G_name (gs @ [?g]))"
    by simp
  ultimately show ?thesis by (intro exI[of _ "gs @ [?g]"] exI[of _ ?i] exI[of _ ?g]) simp
next
  case (Some g)
  have "d\<lparr>Genres := Some gs, seq_Genres := seq_Genres d\<rparr> = d" using assms(1) by simp
  then have "find_or_create_genre d (Some t) =
          (d\<lparr>Genres := Some gs, seq_Genres := seq_Genres d\<rparr>, Inr (Some (G_genre_id g)))"
    using Some assms by (simp add: find_or_create_genre_def)
  with find_Some_mem[OF Some] show ?thesis by blast
qed

lemma artist_step:
  assumes "Artists d = Some as" "rowid_free (seq_Artists d) (map A_artist_id as)"
  shows "\<exists>as' q aid.
          (if truthy_str (trimmed v) then find_or_create_artist d (trimmed v) None
           else (d, Inr None)) = (d\<lparr>Artists := Some as', seq_Artists := q\<rparr>, Inr aid) \<and>
          (case trimmed v of
             None \<Rightarrow> aid = None
           | Some t \<Rightarrow> \<exists>a. a \<in> set as' \<and> aid = Some (A_artist_id a) \<and> A_name a = strip t) \<and>
          (distinct (map A_artist_id as) \<longrightarrow> distinct (map A_artist_id as')) \<and>
          (distinct (map A_name as) \<longrightarrow> distinct (map A_name as'))"
proof (cases "trimmed v")
  case None
  have e: "d\<lparr>Artists := Some as, seq_Artists := seq_Artists d\<rparr> = d" using assms(1) by simp
  show ?thesis
    by (intro exI[of _ as] exI[of _ "seq_Artists d"] exI[of _ None])
       (simp add: None truthy_str_def e)
next
  case (Some t)
  from find_or_create_artist_result[OF assms strip_trimmed[OF Some], of None]
  obtain as' q a where "find_or_create_artist d (Some t) None =
            (d\<lparr>Artists := Some as', seq_Artists := q\<rparr>, Inr (Some (A_artist_id a)))"
      "a \<in> set as'" "A_name a = strip t"
      "distinct (map A_artist_id as) \<longrightarrow> distinct (map A_artist_id as')"
      "distinct (map A_name as) \<longrightarrow> distinct (map A_name as')" by blast
  with Some truthy_trimmed[of v] show ?thesis by auto
qed

lemma genre_step:
  assumes "Genres d = Some gs" "rowid_free (seq_Genres d) (map G_genre_id gs)"
  shows "\<exists>gs' q gid.
          (if truthy_str (trimmed v) then find_or_create_genre d (trimmed v)
           else (d, Inr None)) = (d\<lparr>Genres := Some gs', seq_Genres := q\<rparr>, Inr gid) \<and>
          (case trimmed v of
             None \<Rightarrow> gid = None
           | Some t \<Rightarrow> \<exists>g. g \<in> set gs' \<and> gid = Some (G_genre_id g) \<and> G_name g = strip t) \<and>
          (distinct (map G_genre_id gs) \<longrightarrow> distinct (map G_genre_id gs')) \<and>
          (distinct (map G_name gs) \<longrightarrow> distinct (map G_name gs'))"
proof (cases "trimmed v")
  case None
  have e: "d\<lparr>Genres := Some gs, seq_Genres := seq_Genres d\<rparr> = d" using assms(1) by simp
  show ?thesis
    by (intro exI[of _ gs] exI[of _ "seq_Genres d"] exI[of _ None])
       (simp add: None truthy_str_def e)
next
  case (Some t)
  from find_or_create_genre_result[OF assms strip_trimmed[OF Some]]
  obtain gs' q g where "find_or_create_genre d (Some t) =
            (d\<lparr>Genres := Some gs', seq_Genres := q\<rparr>, Inr (Some (G_genre_id g)))"
      "g \<in> set gs'" "G_name g = strip t"
      "distinct (map G_genre_id gs) \<longrightarrow> distinct (map G_genre_id gs')"
      "distinct (map G_name gs) \<longrightarrow> distinct (map G_name gs')" by blast
  with Some truthy_trimmed[of v] show ?thesis by auto
qed

lemma get_payload_dict: "get_payload (PDict kvs) = Inr kvs"
  by (cases kvs) (simp_all add: get_payload_def)

subsection \<open>Rejected creation requests\<close>


text \<open>The repository function itself raises \<^verbatim>\<open>ValueError\<close> on such data, before
  it touches the database.\<close>

lemma add_record_db_rejects:
  assumes "d_year data = PInt y \<and> (y < 1800 \<or> 2100 < y) \<or>
           d_price data = PFloat (Finite p) \<and> p < 0"
  shows "\<exists>m. add_record_db d data = (d, Inl (ValueError m))"
  using assms
  by (auto simp add: add_record_db_def validate_data_def split: option.splits sum.splits)



subsection \<open>Accepted payloads\<close>

lemma parse_int_in_range:
  assumes "py_int B v = Inr y" "lo \<le> y" "y \<le> hi"
  shows "parse_int B v (Some lo) (Some hi) = Inr (Some y)"
proof -
  from assms(1) have "v \<noteq> PNone" by auto
  with assms show ?thesis by (simp add: parse_int_def)
qed

lemma parse_float_nonneg:
  assumes "py_float B v = Inr (Finite p)" "0 \<le> p"
  shows "parse_float B v (Some 0) None = Inr (Some (Finite p))"
proof -
  from assms(1) have "v \<noteq> PNone" by auto
  with assms show ?thesis by (simp add: parse_float_def)
qed

lemma parse_date_text_like:
  "text_like v \<Longrightarrow> \<exists>r. parse_date_yyyy_mm_dd v = Inr r \<and> (r = None \<or> v = PStr (the r))"
  by (cases v) (auto simp add: text_like_def parse_date_yyyy_mm_dd_def)

lemma parse_int_store:
  assumes "not_infinite v"
  shows "\<exists>so. parse_int B v (Some 1) None = Inr so \<and>
           (case so of None \<Rightarrow> True | Some s \<Rightarrow> 1 \<le> s) \<and>
           (v = PNone \<longrightarrow> so = None) \<and>
           (\<forall>s. v = PInt s \<longrightarrow> so = (if 1 \<le> s then Some s else None))"
proof -
  from parse_int_not_infinite[OF assms] obtain so where
    so: "parse_int B v (Some 1) None = Inr so" by blast
  have "case so of None \<Rightarrow> True | Some s \<Rightarrow> 1 \<le> s"
    using so by (auto simp add: parse_int_def split: option.splits sum.splits exn.splits if_splits)
  moreover have "v = PNone \<longrightarrow> so = None" using so by (auto simp add: parse_int_def)
  moreover have "\<forall>s. v = PInt s \<longrightarrow> so = (if 1 \<le> s then Some s else None)"
    using so by (auto simp add: parse_int_def)
  ultimately show ?thesis using so by blast
qed

lemma read_record_payload_valid:
  assumes tables: "Artists d = Some as" "rowid_free (seq_Artists d) (map A_artist_id as)"
      "Genres d = Some gs" "rowid_free (seq_Genres d) (map G_genre_id gs)"
    and texts: "text_like (dict_get kvs ''title'')" "text_like (dict_get kvs ''artist_name'')"
      "text_like (dict_get kvs ''genre'')" "text_like (dict_get kvs ''condition'')"
      "text_like (dict_get kvs ''purchase_date'')"
    and title: "trimmed (dict_get kvs ''title'') = Some t"
    and year: "py_int B (dict_get kvs ''year'') = Inr y" "1800 \<le> y" "y \<le> 2100"
    and price: "py_float B (dict_get kvs ''price'') = Inr (Finite p)" "0 \<le> p"
    and store: "parse_int B (dict_get kvs ''store_id'') (Some 1) None = Inr so"
  shows "\<exists>as' q aid gs' q' gid pd.
           read_record_payload B d (PDict kvs) =
             (d\<lparr>Artists := Some as', seq_Artists := q, Genres := Some gs', seq_Genres := q'\<rparr>,
              Inr \<lparr>d_title = Some t, d_artist_id = aid, d_genre_id = gid, d_year = PInt y,
                   d_condition = trimmed (dict_get kvs ''condition''),
                   d_price = PFloat (Finite p), d_purchase_date = pd,
                   d_store_id = Some so\<rparr>) \<and>
           parse_date_yyyy_mm_dd (dict_get kvs ''purchase_date'') = Inr pd \<and>
           (case trimmed (dict_get kvs ''artist_name'') of
              None \<Rightarrow> aid = None
            | Some n \<Rightarrow> \<exists>a. a \<in> set as' \<and> aid = Some (A_artist_id a) \<and> A_name a = strip n) \<and>
           (case trimmed (dict_get kvs ''genre'') of
              None \<Rightarrow> gid = None
            | Some n \<Rightarrow> \<exists>g. g \<in> set gs' \<and> gid = Some (G_genre_id g) \<and> G_name g = strip n) \<and>
           (distinct (map A_artist_id as) \<longrightarrow> distinct (map A_artist_id as')) \<and>
           (distinct (map A_name as) \<longrightarrow> distinct (map A_name as')) \<and>
           (distinct (map G_genre_id gs) \<longrightarrow> distinct (map G_genre_id gs')) \<and>
           (distinct (map G_name gs) \<longrightarrow> distinct (map G_name gs'))"
proof -
  have tt: "truthy_str (trimmed (dict_get kvs ''title''))"
    unfolding truthy_trimmed using title by simp
  from artist_step[OF tables(1,2), of "dict_get kvs ''artist_name''"]
  obtain as' q aid where a: "(if truthy_str (trimmed (dict_get kvs ''artist_name''))
        then find_or_create_artist d (trimmed (dict_get kvs ''artist_name'')) None
        else (d, Inr None)) = (d\<lparr>Artists := Some as', seq_Artists := q\<rparr>, Inr aid)"
    and a': "case trimmed (dict_get kvs ''artist_name'') of
              None \<Rightarrow> aid = None
            | Some n \<Rightarrow> \<exists>a. a \<in> set as' \<and> aid = Some (A_artist_id a) \<and> A_name a = strip n"
      "distinct (map A_artist_id as) \<longrightarrow> distinct (map A_artist_id as')"
      "distinct (map A_name as) \<longrightarrow> distinct (map A_name as')"
    by blast
  let ?d1 = "d\<lparr>Artists := Some as', seq_Artists := q\<rparr>"
  have "Genres ?d1 = Some gs" "rowid_free (seq_Genres ?d1) (map G_genre_id gs)"
    using tables(3,4) by simp_all
  from genre_step[OF this, of "dict_get kvs ''genre''"]
  obtain gs' q' gid where g: "(if truthy_str (trimmed (dict_get kvs ''genre''))
        then find_or_create_genre ?d1 (trimmed (dict_get kvs ''genre''))
        else (?d1, Inr None)) = (?d1\<lparr>Genres := Some gs', seq_Genres := q'\<rparr>, Inr gid)"
    and g': "case trimmed (dict_get kvs ''genre'') of
              None \<Rightarrow> gid = None
            | Some n \<Rightarrow> \<exists>g. g \<in> set gs' \<and> gid = Some (G_genre_id g) \<and> G_name g = strip n"
      "distinct (map G_genre_id gs) \<longrightarrow> distinct (map G_genre_id gs')"
      "distinct (map G_name gs) \<longrightarrow> distinct (map G_name gs')"
    by blast
  from parse_date_text_like[OF texts(5)] obtain pd where
    pd: "parse_date_yyyy_mm_dd (dict_get kvs ''purchase_date'') = Inr pd" by blast
  have rp: "read_record_payload B d (PDict kvs) =
          (?d1\<lparr>Genres := Some gs', seq_Genres := q'\<rparr>,
           Inr \<lparr>d_title = Some t, d_artist_id = aid, d_genre_id = gid, d_year = PInt y,
                d_condition = trimmed (dict_get kvs ''condition''),
                d_price = PFloat (Finite p), d_purchase_date = pd, d_store_id = Some so\<rparr>)"
    using texts tt a g pd store title
      parse_int_in_range[OF year] parse_float_nonneg[OF price]
    by (simp add: read_record_payload_def get_payload_dict sanitize_text_like)
  show ?thesis
    by (intro exI[of _ as'] exI[of _ q] exI[of _ aid] exI[of _ gs'] exI[of _ q'] exI[of _ gid]
        exI[of _ pd] conjI) (fact rp pd a' g')+
qed

section \<open>The database the program makes\<close>

text \<open>
  \<^verbatim>\<open>init_db\<close> is the only code that creates tables, and it creates no link table.
  The theorems of this section run the endpoints on databases reached from the empty file
  through the program alone.
\<close>

lemma fresh_db_eq:
  "fresh_db = \<lparr>Artists = Some [], Genres = Some [], Records = Some [], Stores = Some [],
      recordStores = None, seq_Artists = 0, seq_Genres = 0, seq_Records = 0, seq_Stores = 0,
      indexes = indexes fresh_db\<rparr>"
  by (simp add: fresh_db_def init_db_def SCHEMA_def empty_db_def)

text \<open>The creation request of the spec's example succeeds on the fresh database, and the
  list endpoint then shows the record.\<close>

lemma api_add_record_fresh_db:
  "api_add_record no_conv fresh_db kind_of_blue = (one_record_db, Created 1)"
  by code_simp

lemma one_record_db_eq:
  "one_record_db = \<lparr>Artists = Some [\<lparr>A_artist_id = 1, A_name = ''Miles Davis'', A_country = None\<rparr>],
      Genres = Some [\<lparr>G_genre_id = 1, G_name = ''Jazz''\<rparr>],
      Records = Some [\<lparr>R_record_id = 1, R_title = ''Kind of Blue'', R_artist_id = Some 1,
        R_genre_id = Some 1, R_year = Some 1959, R_condition = None, R_price = Some (Finite 25),
        R_purchase_date = Some ''2020-01-01''\<rparr>],
      Stores = Some [], recordStores = None,
      seq_Artists = 1, seq_Genres = 1, seq_Records = 1, seq_Stores = 0,
      indexes = indexes fresh_db\<rparr>"
  by code_simp

lemma api_get_records_one_record_db:
  "api_get_records one_record_db =
     OK [\<lparr>v_record_id = 1, v_title = ''Kind of Blue'', v_artist = Some ''Miles Davis'',
          v_genre = Some ''Jazz'', v_store = None, v_year = Some 1959, v_condition = None,
          v_price = Some (Finite 25), v_purchase_date = Some ''2020-01-01''\<rparr>]"
  by code_simp

subsection \<open>Creating a record with a store\<close>

text \<open>
  Claim C4 says that every valid creation request succeeds and that the list endpoint then
  shows the record.  On the database the program makes, holding one record and the store
  1, the valid request for \<open>Blue Train\<close> at store 1 is answered with the server error
  500: the insert into the link table raises \<^verbatim>\<open>OperationalError\<close>, the insert into
  Records is never committed, and the list endpoint shows the old record alone.
\<close>

theorem api_add_record_with_store:
  "Stores vinyl_shop_db =
     Some [\<lparr>S_store_id = 1, S_name = ''Vinyl Shop'', S_state = None, S_address = None\<rparr>] \<and>
   recordStores vinyl_shop_db = None \<and>
   api_add_record no_conv vinyl_shop_db blue_train =
     (vinyl_shop_db, InternalServerError OperationalError) \<and>
   api_get_records vinyl_shop_db =
     OK [\<lparr>v_record_id = 1, v_title = ''Kind of Blue'', v_artist = Some ''Miles Davis'',
          v_genre = Some ''Jazz'', v_store = None, v_year = Some 1959, v_condition = None,
          v_price = Some (Finite 25), v_purchase_date = Some ''2020-01-01''\<rparr>]"
  by code_simp

subsection \<open>Updating a record\<close>

text \<open>
  Claim C9 says that an update with a valid payload replaces the store links of the
  record.  On the database the program makes, the update of record 1 with the payload it
  was created from, which names no store, is answered with the server error 500 and
  changes nothing: the facade always passes the key \<^verbatim>\<open>store_id\<close>, so
  \<^verbatim>\<open>update_record_db\<close> always deletes from the link table, which does not exist.
\<close>

theorem api_update_record_one_record_db:
  "api_update_record no_conv one_record_db 1 kind_of_blue =
     (one_record_db, InternalServerError OperationalError)"
  by code_simp

subsection \<open>Deleting a record\<close>

text \<open>
  Claim C6 says that deleting the only record of an artist removes the record, its links
  and the artist.  On the database the program makes, record 1 is the only record of
  artist 1; deleting it raises \<^verbatim>\<open>OperationalError\<close> at the first statement, the
  delete from the link table, the endpoint answers 500, and record and artist stay.
\<close>

theorem delete_record_db_one_record_db:
  "delete_record_db one_record_db 1 = (one_record_db, Inl OperationalError) \<and>
   api_delete_record one_record_db 1 = (one_record_db, InternalServerError OperationalError) \<and>
   map R_artist_id (rows_of (Records one_record_db)) = [Some 1] \<and>
   Artists one_record_db = Some [\<lparr>A_artist_id = 1, A_name = ''Miles Davis'', A_country = None\<rparr>]"
  by code_simp

text \<open>
  Claim C10 says that deleting a record id that does not exist succeeds and changes
  nothing.  On the databases the program makes, where 1 is the only record id, the delete
  endpoint answers the request for id 7 with the server error 500; the database is
  unchanged.  The id \<open>2 ^ 63\<close>, which SQLite cannot bind, is answered with 500 as well.
\<close>

theorem api_delete_record_missing_id:
  "map R_record_id (rows_of (Records one_record_db)) = [1] \<and>
   api_delete_record one_record_db 7 = (one_record_db, InternalServerError OperationalError) \<and>
   api_delete_record fresh_db 7 = (fresh_db, InternalServerError OperationalError) \<and>
   api_delete_record one_record_db (2 ^ 63) = (one_record_db, InternalServerError OverflowError)"
  by code_simp

subsection \<open>The report\<close>

text \<open>
  Claim C2 says that the report returns the records that satisfy every filter and a count
  equal to the number of rows.  On the database the program makes, holding the store 1,
  the report filtered by store 1 is answered with the server error 500: without the link
  table the query has no table \<^verbatim>\<open>RS\<close> for its condition \<^verbatim>\<open>RS.store_id = ?\<close>.
\<close>

theorem api_report_records_store_filter:
  "api_report_records no_conv vinyl_shop_db (PDict [(''store_id'', PInt 1)]) =
     InternalServerError OperationalError"
  by code_simp

text \<open>Without a store filter the report answers, here with the one record of artist 1
  bought since 2019 and the count 1.\<close>

lemma api_report_records_artist_filter:
  "api_report_records no_conv vinyl_shop_db
       (PDict [(''artist_id'', PInt 1), (''start_date'', PStr ''2019-01-01'')]) =
     OK \<lparr>report_rows = [\<lparr>v_record_id = 1, v_title = ''Kind of Blue'', v_artist = Some ''Miles Davis'',
          v_genre = Some ''Jazz'', v_store = None, v_year = Some 1959, v_condition = None,
          v_price = Some (Finite 25), v_purchase_date = Some ''2020-01-01''\<rparr>], stats_count = 1\<rparr>"
  by code_simp

text \<open>Where a link table exists and a record has two stores, the rows query joins the
  link table and lists the record twice, while the count query, which joins it only under
  a store filter, counts the record once.\<close>

lemma api_report_records_two_stores:
  "(case api_report_records no_conv sample_db (PDict []) of
      OK r \<Rightarrow> map v_record_id (report_rows r) | _ \<Rightarrow> []) = [3, 2, 1, 1] \<and>
   (case api_report_records no_conv sample_db (PDict []) of
      OK r \<Rightarrow> stats_count r | _ \<Rightarrow> 0) = 3"
  by code_simp

end
